theory Spec2Isabelle
  imports Main
begin

section \<open>The per-TLF metadata storage of the metadata server (mdServerTlfStorage)\<close>

text \<open>
  This theory embeds the storage coordinator of \<^verbatim>\<open>libkbfs\<close>
  (\<^verbatim>\<open>type mdServerTlfStorage\<close> and its methods) and proves properties of
  its read, write and shutdown paths.

  Conventions of the embedding:
  \<^item> every method takes the storage state last and returns its result together with the
    new state; the state holds the fields of the Go struct and the part of the
    filesystem beneath \<^verbatim>\<open>dir\<close>, with a log of the filesystem accesses made;
  \<^item> a Go \<^verbatim>\<open>error\<close> return is \<open>Err e\<close>, a Go \<^verbatim>\<open>panic\<close> is \<open>Panic msg\<close>
    (a panic is never caught or wrapped by the callers in this file);
  \<^item> every public operation holds the lock of the storage from its first to its last
    statement, so a call is one step from state to state; the lock itself is not
    modelled;
  \<^item> the codec, the crypto functions and the methods of the metadata objects live in
    other files; they are parameters, collected in the record \<open>collaborators\<close>.
\<close>

subsection \<open>Identifiers, metadata objects and key bundles\<close>

text \<open>
  The identifier types are declared outside this file. An identifier is represented by
  the text \<^verbatim>\<open>id.String()\<close> yields; the zero value (\<^verbatim>\<open>TLFWriterKeyBundleID{}\<close>,
  \<^verbatim>\<open>MdID{}\<close>) is the empty text.
\<close>

type_synonym MdID = string
type_synonym TLFWriterKeyBundleID = string
type_synonym TLFReaderKeyBundleID = string
type_synonym BranchID = string
type_synonym TlfID = string
type_synonym UID = string
type_synonym VerifyingKey = string
type_synonym MetadataVer = nat
type_synonym MetadataRevision = int
type_synonym time = nat
type_synonym bytes = string

text \<open>The branch id of the merged history; its directory is \<^verbatim>\<open>00..00\<close> in the layout
  described at the head of the source file.\<close>

definition NullBranchID :: BranchID where
  "NullBranchID = ''00000000000000000000000000000000''"

datatype MergeStatus = Merged | Unmerged

text \<open>
  \<^verbatim>\<open>BareRootMetadata\<close> is an interface; the storage only uses the accessors below.
  A value is the record of what the accessors return, with the rest of the object as
  \<open>Payload\<close>.
\<close>

record BareRootMetadata =
  GetTLFWriterKeyBundleID :: TLFWriterKeyBundleID
  GetTLFReaderKeyBundleID :: TLFReaderKeyBundleID
  BID :: BranchID
  MergedStatus :: MergeStatus
  RevisionNumber :: MetadataRevision
  MDVersion :: MetadataVer
  Payload :: string

record RootMetadataSigned =
  MD :: BareRootMetadata
  SigInfo :: string
  untrustedServerTimestamp :: time

datatype TLFWriterKeyBundleV3 = WriterKeyBundle string
datatype TLFReaderKeyBundleV3 = ReaderKeyBundle string

text \<open>\<^verbatim>\<open>ExtraMetadata\<close> is an interface: \<^verbatim>\<open>*ExtraMetadataV3\<close> or some other
  implementation (the fields of the first are \<^verbatim>\<open>wkb\<close> and \<^verbatim>\<open>rkb\<close>); the nil interface value is \<open>None\<close> of \<open>ExtraMetadata option\<close>.\<close>

datatype ExtraMetadata =
    ExtraMetadataV3 TLFWriterKeyBundleV3 TLFReaderKeyBundleV3
  | ExtraMetadataOther string

text \<open>\<^verbatim>\<open>serializedRMDS\<close> is the structure stored in \<^verbatim>\<open>mdPath(id)\<close>.\<close>

record serializedRMDS =
  EncodedRMDS :: bytes
  Timestamp :: time
  Version :: MetadataVer

record mdIDJournalEntry =
  ID :: MdID

subsection \<open>Errors and results\<close>

datatype error =
    errMDServerTlfStorageShutdown
  | ErrNotExist
  | ErrIO string
  | ErrCodec string
  | ErrCollaborator string
  | ErrMdIDMismatch MdID MdID
  | ErrKeyBundleIDsEmpty bool bool
  | ErrWKBIDMismatch TLFWriterKeyBundleID TLFWriterKeyBundleID
  | ErrRKBIDMismatch TLFReaderKeyBundleID TLFReaderKeyBundleID
  | ErrInvalidExtraMetadata
  | ErrExpectedOneMD nat
  | ErrJournalOrder MetadataRevision MetadataRevision
  | ErrInvalidSuccessor string
  | MDServerError error
  | MDServerErrorBadRequest string
  | MDServerErrorUnauthorized

text \<open>
  \<^item> \<open>ErrNotExist\<close> is the error for which \<^verbatim>\<open>os.IsNotExist\<close> holds;
  \<^item> \<open>ErrIO\<close> is any other failure of the operating system, \<open>ErrCodec\<close> a file whose
    content does not decode to the requested type;
  \<^item> \<open>ErrCollaborator\<close> is an error returned by a crypto, codec or metadata method;
  \<^item> \<open>ErrMdIDMismatch\<close>, \<open>ErrKeyBundleIDsEmpty\<close>, \<open>ErrWKBIDMismatch\<close>,
    \<open>ErrRKBIDMismatch\<close>, \<open>ErrInvalidExtraMetadata\<close> and \<open>ErrExpectedOneMD\<close> are the
    errors this file builds with \<^verbatim>\<open>fmt.Errorf\<close> and \<^verbatim>\<open>errors.New\<close>;
  \<^item> \<open>ErrInvalidSuccessor\<close> is what \<^verbatim>\<open>CheckValidSuccessorForServer\<close> returns;
  \<^item> \<open>MDServerError\<close> wraps an error (\<^verbatim>\<open>MDServerError{err}\<close>).
\<close>

datatype 'a result = Ok 'a | Err error | Panic string

definition IsNotExist :: "error \<Rightarrow> bool" where
  "IsNotExist e = (e = ErrNotExist)"

subsection \<open>Collaborators\<close>

text \<open>
  The functions of other files that the storage calls. An error of a collaborator is
  \<open>Inl msg\<close>; the storage sees it as \<open>ErrCollaborator msg\<close> (as \<open>ErrInvalidSuccessor msg\<close>
  for the successor check).
\<close>

record collaborators =
  MakeMdID :: "BareRootMetadata \<Rightarrow> string + MdID"
  MakeTLFWriterKeyBundleID :: "TLFWriterKeyBundleV3 \<Rightarrow> string + TLFWriterKeyBundleID"
  MakeTLFReaderKeyBundleID :: "TLFReaderKeyBundleV3 \<Rightarrow> string + TLFReaderKeyBundleID"
  EncodeRootMetadataSigned :: "RootMetadataSigned \<Rightarrow> string + bytes"
  DecodeRootMetadataSigned ::
    "TlfID \<Rightarrow> MetadataVer \<Rightarrow> MetadataVer \<Rightarrow> bytes \<Rightarrow> time \<Rightarrow> string + RootMetadataSigned"
  isReader :: "UID \<Rightarrow> BareRootMetadata \<Rightarrow> ExtraMetadata option \<Rightarrow> string + bool"
  isWriterOrValidRekey ::
    "UID \<Rightarrow> BareRootMetadata \<Rightarrow> BareRootMetadata \<Rightarrow>
     ExtraMetadata option \<Rightarrow> ExtraMetadata option \<Rightarrow> string + bool"
  IsValidAndSigned :: "RootMetadataSigned \<Rightarrow> ExtraMetadata option \<Rightarrow> string option"
  IsLastModifiedBy :: "RootMetadataSigned \<Rightarrow> UID \<Rightarrow> VerifyingKey \<Rightarrow> string option"
  CheckValidSuccessorForServer ::
    "BareRootMetadata \<Rightarrow> MdID \<Rightarrow> BareRootMetadata \<Rightarrow> string option"

subsection \<open>The storage state and the filesystem beneath it\<close>

type_synonym path = "string list"

datatype fsAccess =
    FsRead path
  | FsWrite path
  | FsMkdirAll path
  | JournalRead path
  | JournalAppend path

datatype fileContent =
    RMDSFile serializedRMDS
  | WKBFile TLFWriterKeyBundleV3
  | RKBFile TLFReaderKeyBundleV3
  | OtherFile string

text \<open>The content of a journal directory: the revision of its first entry and its entries
  in order.\<close>

record journalData =
  earliest :: MetadataRevision
  entries :: "mdIDJournalEntry list"

text \<open>The in-memory journal handle (\<^verbatim>\<open>mdIDJournal\<close>): the directory it works on.\<close>

record mdIDJournal =
  jdir :: path

text \<open>
  The fields \<open>tlfID\<close>, \<open>mdVer\<close>, \<open>dir\<close> and \<open>branchJournals\<close> are those of the struct;
  \<open>branchJournals = None\<close> is the nil map. \<open>clockNow\<close> is what \<^verbatim>\<open>s.clock.Now()\<close>
  returns. The remaining fields are the filesystem: the regular files, the journal
  directories, the failures the operating system injects (\<open>ioFault a = Some msg\<close>: the
  access \<open>a\<close> fails with that message) and the log of all accesses made so far:
  \<open>FsRead\<close> and \<open>FsWrite\<close> of a regular file, \<open>FsMkdirAll\<close> of a directory, and the
  reads and appends of a journal directory.
\<close>

record mdServerTlfStorage =
  tlfID :: TlfID
  mdVer :: MetadataVer
  clockNow :: time
  dir :: path
  branchJournals :: "(BranchID \<rightharpoonup> mdIDJournal) option"
  files :: "path \<rightharpoonup> fileContent"
  journals :: "path \<rightharpoonup> journalData"
  ioFault :: "fsAccess \<Rightarrow> string option"
  accesses :: "fsAccess list"

definition logAccess :: "fsAccess \<Rightarrow> mdServerTlfStorage \<Rightarrow> mdServerTlfStorage" where
  "logAccess a s = s\<lparr>accesses := accesses s @ [a]\<rparr>"

text \<open>\<^verbatim>\<open>filepath.Join\<close> on a path given by its components: empty elements are
  ignored.\<close>

definition Join :: "path \<Rightarrow> string list \<Rightarrow> path" where
  "Join p elems = p @ filter (\<lambda>c. c \<noteq> []) elems"

text \<open>
  Modelled from the spec: the codec (\<^verbatim>\<open>kbfscodec.DeserializeFromFile\<close>,
  \<^verbatim>\<open>kbfscodec.SerializeToFile\<close>) is opaque, \<open>serializeToFile(value, path)\<close> and
  \<open>deserializeFromFile(path) -> value\<close>. Reading a path with no file is the error of
  \<^verbatim>\<open>os.IsNotExist\<close>; the read of an existing file may be failed by the operating
  system; a file of another type does not decode.
\<close>

definition readFile :: "path \<Rightarrow> mdServerTlfStorage \<Rightarrow> fileContent result \<times> mdServerTlfStorage" where
  "readFile p s =
     (let s' = logAccess (FsRead p) s in
      case files s p of
        None \<Rightarrow> (Err ErrNotExist, s')
      | Some c \<Rightarrow>
          (case ioFault s (FsRead p) of
             Some msg \<Rightarrow> (Err (ErrIO msg), s')
           | None \<Rightarrow> (Ok c, s')))"

definition DeserializeRMDSFromFile ::
  "path \<Rightarrow> mdServerTlfStorage \<Rightarrow> serializedRMDS result \<times> mdServerTlfStorage" where
  "DeserializeRMDSFromFile p s =
     (case readFile p s of
        (Ok (RMDSFile srmds), s') \<Rightarrow> (Ok srmds, s')
      | (Ok _, s') \<Rightarrow> (Err (ErrCodec ''not a serializedRMDS''), s')
      | (Err e, s') \<Rightarrow> (Err e, s')
      | (Panic msg, s') \<Rightarrow> (Panic msg, s'))"

definition DeserializeWKBFromFile ::
  "path \<Rightarrow> mdServerTlfStorage \<Rightarrow> TLFWriterKeyBundleV3 result \<times> mdServerTlfStorage" where
  "DeserializeWKBFromFile p s =
     (case readFile p s of
        (Ok (WKBFile b), s') \<Rightarrow> (Ok b, s')
      | (Ok _, s') \<Rightarrow> (Err (ErrCodec ''not a TLFWriterKeyBundleV3''), s')
      | (Err e, s') \<Rightarrow> (Err e, s')
      | (Panic msg, s') \<Rightarrow> (Panic msg, s'))"

definition DeserializeRKBFromFile ::
  "path \<Rightarrow> mdServerTlfStorage \<Rightarrow> TLFReaderKeyBundleV3 result \<times> mdServerTlfStorage" where
  "DeserializeRKBFromFile p s =
     (case readFile p s of
        (Ok (RKBFile b), s') \<Rightarrow> (Ok b, s')
      | (Ok _, s') \<Rightarrow> (Err (ErrCodec ''not a TLFReaderKeyBundleV3''), s')
      | (Err e, s') \<Rightarrow> (Err e, s')
      | (Panic msg, s') \<Rightarrow> (Panic msg, s'))"

definition SerializeToFile ::
  "fileContent \<Rightarrow> path \<Rightarrow> mdServerTlfStorage \<Rightarrow> unit result \<times> mdServerTlfStorage" where
  "SerializeToFile c p s =
     (let s' = logAccess (FsWrite p) s in
      case ioFault s (FsWrite p) of
        Some msg \<Rightarrow> (Err (ErrIO msg), s')
      | None \<Rightarrow> (Ok (), s'\<lparr>files := (files s')(p \<mapsto> c)\<rparr>))"

text \<open>\<^verbatim>\<open>os.MkdirAll\<close>: an existing directory is left as it is, a new one is empty.\<close>

definition MkdirAll :: "path \<Rightarrow> mdServerTlfStorage \<Rightarrow> unit result \<times> mdServerTlfStorage" where
  "MkdirAll p s =
     (let s' = logAccess (FsMkdirAll p) s in
      case ioFault s (FsMkdirAll p) of
        Some msg \<Rightarrow> (Err (ErrIO msg), s')
      | None \<Rightarrow>
          (case journals s' p of
             Some _ \<Rightarrow> (Ok (), s')
           | None \<Rightarrow> (Ok (), s'\<lparr>journals := (journals s')(p \<mapsto> \<lparr>earliest = 0, entries = []\<rparr>)\<rparr>)))"

subsection \<open>The branch journal\<close>

text \<open>
  Modelled from the spec: the type \<^verbatim>\<open>mdIDJournal\<close> and its methods
  \<^verbatim>\<open>length\<close>, \<^verbatim>\<open>getLatestEntry\<close>, \<^verbatim>\<open>getEntryRange\<close> and \<^verbatim>\<open>append\<close> are not in this
  file. The spec (4.3): an ordinal log persisted as a directory; \<open>length()\<close> is the count
  of entries; the first \<open>append\<close> establishes the starting revision and every later one
  must carry the previous revision plus one, failing with a consistency error otherwise;
  \<open>latestEntry()\<close> is the most recently appended entry, or none when the journal is
  empty; \<open>entryRange(start, stop)\<close> returns the entries whose revisions fall in
  \<open>[start, stop]\<close>, clamped to what exists, with the first revision actually returned.
  Every method is one access to the journal directory, which the operating system may
  fail.
\<close>

definition makeMdIDJournal :: "path \<Rightarrow> mdIDJournal" where
  "makeMdIDJournal d = \<lparr>jdir = d\<rparr>"

definition readJournal :: "mdIDJournal \<Rightarrow> mdServerTlfStorage \<Rightarrow> journalData" where
  "readJournal j s =
     (case journals s (jdir j) of
        None \<Rightarrow> \<lparr>earliest = 0, entries = []\<rparr>
      | Some d \<Rightarrow> d)"

definition mdIDJournal_length ::
  "mdIDJournal \<Rightarrow> mdServerTlfStorage \<Rightarrow> nat result \<times> mdServerTlfStorage" where
  "mdIDJournal_length j s =
     (let s' = logAccess (JournalRead (jdir j)) s in
      case ioFault s (JournalRead (jdir j)) of
        Some msg \<Rightarrow> (Err (ErrIO msg), s')
      | None \<Rightarrow> (Ok (length (entries (readJournal j s))), s'))"

definition mdIDJournal_getLatestEntry ::
  "mdIDJournal \<Rightarrow> mdServerTlfStorage \<Rightarrow> mdIDJournalEntry option result \<times> mdServerTlfStorage" where
  "mdIDJournal_getLatestEntry j s =
     (let s' = logAccess (JournalRead (jdir j)) s in
      case ioFault s (JournalRead (jdir j)) of
        Some msg \<Rightarrow> (Err (ErrIO msg), s')
      | None \<Rightarrow>
          (case entries (readJournal j s) of
             [] \<Rightarrow> (Ok None, s')
           | e # es \<Rightarrow> (Ok (Some (last (e # es))), s')))"

definition entryRange ::
  "journalData \<Rightarrow> MetadataRevision \<Rightarrow> MetadataRevision \<Rightarrow>
   MetadataRevision \<times> mdIDJournalEntry list" where
  "entryRange d start stop =
     (let n = int (length (entries d));
          lo = max start (earliest d);
          hi = min stop (earliest d + n - 1)
      in if n = 0 \<or> hi < lo then (0, [])
         else (lo, take (nat (hi - lo + 1)) (drop (nat (lo - earliest d)) (entries d))))"

definition mdIDJournal_getEntryRange ::
  "mdIDJournal \<Rightarrow> MetadataRevision \<Rightarrow> MetadataRevision \<Rightarrow> mdServerTlfStorage \<Rightarrow>
   (MetadataRevision \<times> mdIDJournalEntry list) result \<times> mdServerTlfStorage" where
  "mdIDJournal_getEntryRange j start stop s =
     (let s' = logAccess (JournalRead (jdir j)) s in
      case ioFault s (JournalRead (jdir j)) of
        Some msg \<Rightarrow> (Err (ErrIO msg), s')
      | None \<Rightarrow> (Ok (entryRange (readJournal j s) start stop), s'))"

definition mdIDJournal_append ::
  "mdIDJournal \<Rightarrow> MetadataRevision \<Rightarrow> mdIDJournalEntry \<Rightarrow> mdServerTlfStorage \<Rightarrow>
   unit result \<times> mdServerTlfStorage" where
  "mdIDJournal_append j r e s =
     (let s' = logAccess (JournalAppend (jdir j)) s;
          d = readJournal j s
      in case ioFault s (JournalAppend (jdir j)) of
           Some msg \<Rightarrow> (Err (ErrIO msg), s')
         | None \<Rightarrow>
             if entries d = [] then
               (Ok (), s'\<lparr>journals := (journals s')(jdir j \<mapsto> \<lparr>earliest = r, entries = [e]\<rparr>)\<rparr>)
             else if r \<noteq> earliest d + int (length (entries d)) then
               (Err (ErrJournalOrder (earliest d + int (length (entries d))) r), s')
             else
               (Ok (), s'\<lparr>journals := (journals s')(jdir j \<mapsto> d\<lparr>entries := entries d @ [e]\<rparr>)\<rparr>))"

subsection \<open>Paths\<close>

definition branchJournalsPath :: "mdServerTlfStorage \<Rightarrow> path" where
  "branchJournalsPath s = Join (dir s) [''md_branch_journals'']"

definition mdsPath :: "mdServerTlfStorage \<Rightarrow> path" where
  "mdsPath s = Join (dir s) [''mds'']"

definition writerKeyBundleV3Path :: "mdServerTlfStorage \<Rightarrow> TLFWriterKeyBundleID \<Rightarrow> path" where
  "writerKeyBundleV3Path s mid = Join (dir s) [''wkbv3'', mid]"

definition readerKeyBundleV3Path :: "mdServerTlfStorage \<Rightarrow> TLFReaderKeyBundleID \<Rightarrow> path" where
  "readerKeyBundleV3Path s mid = Join (dir s) [''rkbv3'', mid]"

text \<open>\<^verbatim>\<open>idStr[:4]\<close> and \<^verbatim>\<open>idStr[4:]\<close> panic on a text of fewer than four characters:
  then there is no path (\<open>None\<close>).\<close>

definition mdPath :: "mdServerTlfStorage \<Rightarrow> MdID \<Rightarrow> path option" where
  "mdPath s mid =
     (let idStr = mid in
      if length idStr < 4 then None
      else Some (Join (mdsPath s) [take 4 idStr, drop 4 idStr]))"

subsection \<open>The object store\<close>

definition getMDReadLocked ::
  "collaborators \<Rightarrow> MdID \<Rightarrow> mdServerTlfStorage \<Rightarrow>
   RootMetadataSigned result \<times> mdServerTlfStorage" where
  "getMDReadLocked env mid s =
     (case mdPath s mid of
        None \<Rightarrow> (Panic ''slice bounds out of range'', s)
      | Some p \<Rightarrow>
          (case DeserializeRMDSFromFile p s of
             (Err e, s1) \<Rightarrow> (Err e, s1)
           | (Panic msg, s1) \<Rightarrow> (Panic msg, s1)
           | (Ok srmds, s1) \<Rightarrow>
               (case DecodeRootMetadataSigned env (tlfID s1) (Version srmds) (mdVer s1)
                       (EncodedRMDS srmds) (Timestamp srmds) of
                  Inl msg \<Rightarrow> (Err (ErrCollaborator msg), s1)
                | Inr rmds \<Rightarrow>
                    (case MakeMdID env (MD rmds) of
                       Inl msg \<Rightarrow> (Err (ErrCollaborator msg), s1)
                     | Inr mdID \<Rightarrow>
                         if mid \<noteq> mdID then (Err (ErrMdIDMismatch mid mdID), s1)
                         else (Ok rmds, s1)))))"

definition putMDLocked ::
  "collaborators \<Rightarrow> RootMetadataSigned \<Rightarrow> mdServerTlfStorage \<Rightarrow>
   MdID result \<times> mdServerTlfStorage" where
  "putMDLocked env rmds s =
     (case MakeMdID env (MD rmds) of
        Inl msg \<Rightarrow> (Err (ErrCollaborator msg), s)
      | Inr mid \<Rightarrow>
          (case getMDReadLocked env mid s of
             (Panic msg, s1) \<Rightarrow> (Panic msg, s1)
           | (Ok _, s1) \<Rightarrow> (Ok mid, s1)
           | (Err err, s1) \<Rightarrow>
               if \<not> IsNotExist err then (Err err, s1)
               else
                 (case EncodeRootMetadataSigned env rmds of
                    Inl msg \<Rightarrow> (Err (ErrCollaborator msg), s1)
                  | Inr encodedRMDS \<Rightarrow>
                      (let srmds = \<lparr>EncodedRMDS = encodedRMDS,
                                    Timestamp = clockNow s1,
                                    Version = MDVersion (MD rmds)\<rparr>
                       in case mdPath s1 mid of
                            None \<Rightarrow> (Panic ''slice bounds out of range'', s1)
                          | Some p \<Rightarrow>
                              (case SerializeToFile (RMDSFile srmds) p s1 of
                                 (Err e, s2) \<Rightarrow> (Err e, s2)
                               | (Panic msg, s2) \<Rightarrow> (Panic msg, s2)
                               | (Ok _, s2) \<Rightarrow> (Ok mid, s2))))))"

subsection \<open>Branch journals of the storage\<close>

text \<open>Reading a Go map: a nil map has no entry.\<close>

definition lookupBranchJournal :: "mdServerTlfStorage \<Rightarrow> BranchID \<Rightarrow> mdIDJournal option" where
  "lookupBranchJournal s bid =
     (case branchJournals s of None \<Rightarrow> None | Some m \<Rightarrow> m bid)"

text \<open>Writing to a Go map: assigning into a nil map panics.\<close>

definition getOrCreateBranchJournalLocked ::
  "BranchID \<Rightarrow> mdServerTlfStorage \<Rightarrow> mdIDJournal result \<times> mdServerTlfStorage" where
  "getOrCreateBranchJournalLocked bid s =
     (case lookupBranchJournal s bid of
        Some j \<Rightarrow> (Ok j, s)
      | None \<Rightarrow>
          (let d = Join (branchJournalsPath s) [bid] in
           case MkdirAll d s of
             (Err e, s1) \<Rightarrow> (Err e, s1)
           | (Panic msg, s1) \<Rightarrow> (Panic msg, s1)
           | (Ok _, s1) \<Rightarrow>
               (let j = makeMdIDJournal d in
                case branchJournals s1 of
                  None \<Rightarrow> (Panic ''assignment to entry in nil map'', s1)
                | Some m \<Rightarrow> (Ok j, s1\<lparr>branchJournals := Some (m(bid \<mapsto> j))\<rparr>))))"

definition getHeadForTLFReadLocked ::
  "collaborators \<Rightarrow> BranchID \<Rightarrow> mdServerTlfStorage \<Rightarrow>
   RootMetadataSigned option result \<times> mdServerTlfStorage" where
  "getHeadForTLFReadLocked env bid s =
     (case lookupBranchJournal s bid of
        None \<Rightarrow> (Ok None, s)
      | Some j \<Rightarrow>
          (case mdIDJournal_getLatestEntry j s of
             (Err e, s1) \<Rightarrow> (Err e, s1)
           | (Panic msg, s1) \<Rightarrow> (Panic msg, s1)
           | (Ok None, s1) \<Rightarrow> (Ok None, s1)
           | (Ok (Some entry), s1) \<Rightarrow>
               (case getMDReadLocked env (ID entry) s1 of
                  (Ok rmds, s2) \<Rightarrow> (Ok (Some rmds), s2)
                | (Err e, s2) \<Rightarrow> (Err e, s2)
                | (Panic msg, s2) \<Rightarrow> (Panic msg, s2))))"

subsection \<open>The key-bundle store\<close>

definition checkKeyBundlesV3 ::
  "collaborators \<Rightarrow> TLFWriterKeyBundleID \<Rightarrow> TLFReaderKeyBundleID \<Rightarrow>
   TLFWriterKeyBundleV3 \<Rightarrow> TLFReaderKeyBundleV3 \<Rightarrow> error option" where
  "checkKeyBundlesV3 env wkbID rkbID wkb rkb =
     (case MakeTLFWriterKeyBundleID env wkb of
        Inl msg \<Rightarrow> Some (ErrCollaborator msg)
      | Inr computedWKBID \<Rightarrow>
          if wkbID \<noteq> computedWKBID then Some (ErrWKBIDMismatch wkbID computedWKBID)
          else
            (case MakeTLFReaderKeyBundleID env rkb of
               Inl msg \<Rightarrow> Some (ErrCollaborator msg)
             | Inr computedRKBID \<Rightarrow>
                 if rkbID \<noteq> computedRKBID then Some (ErrRKBIDMismatch rkbID computedRKBID)
                 else None))"

definition getKeyBundlesReadLocked ::
  "collaborators \<Rightarrow> TLFWriterKeyBundleID \<Rightarrow> TLFReaderKeyBundleID \<Rightarrow> mdServerTlfStorage \<Rightarrow>
   (TLFWriterKeyBundleV3 option \<times> TLFReaderKeyBundleV3 option) result \<times> mdServerTlfStorage" where
  "getKeyBundlesReadLocked env wkbID rkbID s =
     (if (wkbID = []) \<noteq> (rkbID = []) then
        (Err (ErrKeyBundleIDsEmpty (wkbID = []) (rkbID = [])), s)
      else if wkbID = [] then (Ok (None, None), s)
      else
        (case DeserializeWKBFromFile (writerKeyBundleV3Path s wkbID) s of
           (Err e, s1) \<Rightarrow> (Err e, s1)
         | (Panic msg, s1) \<Rightarrow> (Panic msg, s1)
         | (Ok wkb, s1) \<Rightarrow>
             (case DeserializeRKBFromFile (readerKeyBundleV3Path s1 rkbID) s1 of
                (Err e, s2) \<Rightarrow> (Err e, s2)
              | (Panic msg, s2) \<Rightarrow> (Panic msg, s2)
              | (Ok rkb, s2) \<Rightarrow>
                  (case checkKeyBundlesV3 env wkbID rkbID wkb rkb of
                     Some e \<Rightarrow> (Err e, s2)
                   | None \<Rightarrow> (Ok (Some wkb, Some rkb), s2)))))"

definition getExtraMetadataReadLocked ::
  "collaborators \<Rightarrow> TLFWriterKeyBundleID \<Rightarrow> TLFReaderKeyBundleID \<Rightarrow> mdServerTlfStorage \<Rightarrow>
   ExtraMetadata option result \<times> mdServerTlfStorage" where
  "getExtraMetadataReadLocked env wkbID rkbID s =
     (case getKeyBundlesReadLocked env wkbID rkbID s of
        (Err e, s1) \<Rightarrow> (Err e, s1)
      | (Panic msg, s1) \<Rightarrow> (Panic msg, s1)
      | (Ok (wkb, rkb), s1) \<Rightarrow>
          (case (wkb, rkb) of
             (Some w, Some r) \<Rightarrow> (Ok (Some (ExtraMetadataV3 w r)), s1)
           | _ \<Rightarrow> (Ok None, s1)))"

definition putExtraMetadataLocked ::
  "collaborators \<Rightarrow> RootMetadataSigned \<Rightarrow> ExtraMetadata option \<Rightarrow> mdServerTlfStorage \<Rightarrow>
   unit result \<times> mdServerTlfStorage" where
  "putExtraMetadataLocked env rmds extra s =
     (case extra of
        None \<Rightarrow> (Ok (), s)
      | Some x \<Rightarrow>
          (let wkbID = GetTLFWriterKeyBundleID (MD rmds) in
           if wkbID = [] then (Panic ''writer key bundle ID is empty'', s)
           else
             (let rkbID = GetTLFReaderKeyBundleID (MD rmds) in
              if rkbID = [] then (Panic ''reader key bundle ID is empty'', s)
              else
                (case x of
                   ExtraMetadataOther _ \<Rightarrow> (Err ErrInvalidExtraMetadata, s)
                 | ExtraMetadataV3 w r \<Rightarrow>
                     (case checkKeyBundlesV3 env wkbID rkbID w r of
                        Some e \<Rightarrow> (Err e, s)
                      | None \<Rightarrow>
                          (case SerializeToFile (WKBFile w) (writerKeyBundleV3Path s wkbID) s of
                             (Err e, s1) \<Rightarrow> (Err e, s1)
                           | (Panic msg, s1) \<Rightarrow> (Panic msg, s1)
                           | (Ok _, s1) \<Rightarrow>
                               (case SerializeToFile (RKBFile r)
                                       (readerKeyBundleV3Path s1 rkbID) s1 of
                                  (Err e, s2) \<Rightarrow> (Err e, s2)
                                | (Panic msg, s2) \<Rightarrow> (Panic msg, s2)
                                | (Ok _, s2) \<Rightarrow> (Ok (), s2))))))))"

subsection \<open>The authorization gate and the range read\<close>

definition checkGetParamsReadLocked ::
  "collaborators \<Rightarrow> UID \<Rightarrow> BranchID \<Rightarrow> mdServerTlfStorage \<Rightarrow>
   unit result \<times> mdServerTlfStorage" where
  "checkGetParamsReadLocked env currentUID bid s =
     (case getHeadForTLFReadLocked env NullBranchID s of
        (Err e, s1) \<Rightarrow> (Err (MDServerError e), s1)
      | (Panic msg, s1) \<Rightarrow> (Panic msg, s1)
      | (Ok None, s1) \<Rightarrow> (Ok (), s1)
      | (Ok (Some mergedMasterHead), s1) \<Rightarrow>
          (case getExtraMetadataReadLocked env
                  (GetTLFWriterKeyBundleID (MD mergedMasterHead))
                  (GetTLFReaderKeyBundleID (MD mergedMasterHead)) s1 of
             (Err e, s2) \<Rightarrow> (Err (MDServerError e), s2)
           | (Panic msg, s2) \<Rightarrow> (Panic msg, s2)
           | (Ok extra, s2) \<Rightarrow>
               (case isReader env currentUID (MD mergedMasterHead) extra of
                  Inl msg \<Rightarrow> (Err (MDServerError (ErrCollaborator msg)), s2)
                | Inr ok \<Rightarrow>
                    if \<not> ok then (Err MDServerErrorUnauthorized, s2)
                    else (Ok (), s2))))"

text \<open>The loop of \<^verbatim>\<open>getRangeReadLocked\<close> over the entries, \<open>i\<close> the index of the first
  of them.\<close>

fun resolveEntries ::
  "collaborators \<Rightarrow> MetadataRevision \<Rightarrow> nat \<Rightarrow> mdIDJournalEntry list \<Rightarrow> mdServerTlfStorage \<Rightarrow>
   RootMetadataSigned list result \<times> mdServerTlfStorage" where
  "resolveEntries env realStart i [] s = (Ok [], s)"
| "resolveEntries env realStart i (entry # rest) s =
     (let expectedRevision = realStart + int i in
      case getMDReadLocked env (ID entry) s of
        (Err e, s1) \<Rightarrow> (Err (MDServerError e), s1)
      | (Panic msg, s1) \<Rightarrow> (Panic msg, s1)
      | (Ok rmds, s1) \<Rightarrow>
          if expectedRevision \<noteq> RevisionNumber (MD rmds) then
            (Panic ''expected revision differs'', s1)
          else
            (case resolveEntries env realStart (Suc i) rest s1 of
               (Ok rmdses, s2) \<Rightarrow> (Ok (rmds # rmdses), s2)
             | (Err e, s2) \<Rightarrow> (Err e, s2)
             | (Panic msg, s2) \<Rightarrow> (Panic msg, s2)))"

definition getRangeReadLocked ::
  "collaborators \<Rightarrow> UID \<Rightarrow> BranchID \<Rightarrow> MetadataRevision \<Rightarrow> MetadataRevision \<Rightarrow>
   mdServerTlfStorage \<Rightarrow> RootMetadataSigned list result \<times> mdServerTlfStorage" where
  "getRangeReadLocked env currentUID bid start stop s =
     (case checkGetParamsReadLocked env currentUID bid s of
        (Err e, s1) \<Rightarrow> (Err e, s1)
      | (Panic msg, s1) \<Rightarrow> (Panic msg, s1)
      | (Ok _, s1) \<Rightarrow>
          (case lookupBranchJournal s1 bid of
             None \<Rightarrow> (Ok [], s1)
           | Some j \<Rightarrow>
               (case mdIDJournal_getEntryRange j start stop s1 of
                  (Err e, s2) \<Rightarrow> (Err e, s2)
                | (Panic msg, s2) \<Rightarrow> (Panic msg, s2)
                | (Ok (realStart, ents), s2) \<Rightarrow> resolveEntries env realStart 0 ents s2)))"

subsection \<open>The public operations\<close>

text \<open>\<^verbatim>\<open>makeMDServerTlfStorage\<close> builds the struct with an empty map of branch journals;
  the filesystem it finds beneath \<open>dir\<close> is given by the last three arguments.\<close>

definition makeMDServerTlfStorage ::
  "TlfID \<Rightarrow> time \<Rightarrow> MetadataVer \<Rightarrow> path \<Rightarrow>
   (path \<rightharpoonup> fileContent) \<Rightarrow> (path \<rightharpoonup> journalData) \<Rightarrow> (fsAccess \<Rightarrow> string option) \<Rightarrow>
   mdServerTlfStorage" where
  "makeMDServerTlfStorage t clock ver d fs js faults =
     \<lparr>tlfID = t, mdVer = ver, clockNow = clock, dir = d,
      branchJournals = Some Map.empty,
      files = fs, journals = js, ioFault = faults, accesses = []\<rparr>"

definition isShutdownReadLocked :: "mdServerTlfStorage \<Rightarrow> bool" where
  "isShutdownReadLocked s = (branchJournals s = None)"

definition journalLength ::
  "BranchID \<Rightarrow> mdServerTlfStorage \<Rightarrow> nat result \<times> mdServerTlfStorage" where
  "journalLength bid s =
     (if isShutdownReadLocked s then (Err errMDServerTlfStorageShutdown, s)
      else
        (case lookupBranchJournal s bid of
           None \<Rightarrow> (Ok 0, s)
         | Some j \<Rightarrow> mdIDJournal_length j s))"

definition getForTLF ::
  "collaborators \<Rightarrow> UID \<Rightarrow> BranchID \<Rightarrow> mdServerTlfStorage \<Rightarrow>
   RootMetadataSigned option result \<times> mdServerTlfStorage" where
  "getForTLF env currentUID bid s =
     (if isShutdownReadLocked s then (Err errMDServerTlfStorageShutdown, s)
      else
        (case checkGetParamsReadLocked env currentUID bid s of
           (Err e, s1) \<Rightarrow> (Err e, s1)
         | (Panic msg, s1) \<Rightarrow> (Panic msg, s1)
         | (Ok _, s1) \<Rightarrow>
             (case getHeadForTLFReadLocked env bid s1 of
                (Err e, s2) \<Rightarrow> (Err (MDServerError e), s2)
              | (Panic msg, s2) \<Rightarrow> (Panic msg, s2)
              | (Ok rmds, s2) \<Rightarrow> (Ok rmds, s2))))"

definition getRange ::
  "collaborators \<Rightarrow> UID \<Rightarrow> BranchID \<Rightarrow> MetadataRevision \<Rightarrow> MetadataRevision \<Rightarrow>
   mdServerTlfStorage \<Rightarrow> RootMetadataSigned list result \<times> mdServerTlfStorage" where
  "getRange env currentUID bid start stop s =
     (if isShutdownReadLocked s then (Err errMDServerTlfStorageShutdown, s)
      else getRangeReadLocked env currentUID bid start stop s)"

text \<open>
  \<^verbatim>\<open>put\<close> is embedded in the order of its source, one definition per block:
  \<open>putResolveExtra\<close> is the block \<^verbatim>\<open>if extra == nil\<close>, \<open>putCheckPermissions\<close> the two
  validations and the block under \<^verbatim>\<open>// Check permissions\<close>, \<open>putComparisonHead\<close> the
  resolution of \<^verbatim>\<open>head\<close> and \<^verbatim>\<open>recordBranchID\<close>, \<open>putCheckSuccessor\<close> the block under
  \<^verbatim>\<open>// Consistency checks\<close>, and \<open>putPersist\<close> the rest.
\<close>

definition putResolveExtra ::
  "collaborators \<Rightarrow> RootMetadataSigned \<Rightarrow> ExtraMetadata option \<Rightarrow> mdServerTlfStorage \<Rightarrow>
   ExtraMetadata option result \<times> mdServerTlfStorage" where
  "putResolveExtra env rmds extra s =
     (case extra of
        Some x \<Rightarrow> (Ok (Some x), s)
      | None \<Rightarrow>
          (case getExtraMetadataReadLocked env
                  (GetTLFWriterKeyBundleID (MD rmds))
                  (GetTLFReaderKeyBundleID (MD rmds)) s of
             (Err e, s1) \<Rightarrow> (Err (MDServerError e), s1)
           | (Panic msg, s1) \<Rightarrow> (Panic msg, s1)
           | (Ok extra', s1) \<Rightarrow> (Ok extra', s1)))"

definition putCheckPermissions ::
  "collaborators \<Rightarrow> UID \<Rightarrow> VerifyingKey \<Rightarrow> RootMetadataSigned \<Rightarrow> ExtraMetadata option \<Rightarrow>
   mdServerTlfStorage \<Rightarrow> unit result \<times> mdServerTlfStorage" where
  "putCheckPermissions env currentUID currentVerifyingKey rmds extra s =
     (case IsValidAndSigned env rmds extra of
        Some reason \<Rightarrow> (Err (MDServerErrorBadRequest reason), s)
      | None \<Rightarrow>
          (case IsLastModifiedBy env rmds currentUID currentVerifyingKey of
             Some reason \<Rightarrow> (Err (MDServerErrorBadRequest reason), s)
           | None \<Rightarrow>
               (case getHeadForTLFReadLocked env NullBranchID s of
                  (Err e, s1) \<Rightarrow> (Err (MDServerError e), s1)
                | (Panic msg, s1) \<Rightarrow> (Panic msg, s1)
                | (Ok None, s1) \<Rightarrow> (Ok (), s1)
                | (Ok (Some mergedMasterHead), s1) \<Rightarrow>
                    (case getExtraMetadataReadLocked env
                            (GetTLFWriterKeyBundleID (MD mergedMasterHead))
                            (GetTLFReaderKeyBundleID (MD mergedMasterHead)) s1 of
                       (Err e, s2) \<Rightarrow> (Err (MDServerError e), s2)
                     | (Panic msg, s2) \<Rightarrow> (Panic msg, s2)
                     | (Ok prevExtra, s2) \<Rightarrow>
                         (case isWriterOrValidRekey env currentUID
                                 (MD mergedMasterHead) (MD rmds) prevExtra extra of
                            Inl msg \<Rightarrow> (Err (MDServerError (ErrCollaborator msg)), s2)
                          | Inr ok \<Rightarrow>
                              if \<not> ok then (Err MDServerErrorUnauthorized, s2)
                              else (Ok (), s2))))))"

definition putComparisonHead ::
  "collaborators \<Rightarrow> UID \<Rightarrow> RootMetadataSigned \<Rightarrow> mdServerTlfStorage \<Rightarrow>
   (RootMetadataSigned option \<times> bool) result \<times> mdServerTlfStorage" where
  "putComparisonHead env currentUID rmds s =
     (let bid = BID (MD rmds);
          mStatus = MergedStatus (MD rmds)
      in case getHeadForTLFReadLocked env bid s of
           (Err e, s1) \<Rightarrow> (Err (MDServerError e), s1)
         | (Panic msg, s1) \<Rightarrow> (Panic msg, s1)
         | (Ok head, s1) \<Rightarrow>
             if mStatus = Unmerged \<and> head = None then
               (let prevRev = RevisionNumber (MD rmds) - 1 in
                case getRangeReadLocked env currentUID NullBranchID prevRev prevRev s1 of
                  (Err e, s2) \<Rightarrow> (Err (MDServerError e), s2)
                | (Panic msg, s2) \<Rightarrow> (Panic msg, s2)
                | (Ok rmdses, s2) \<Rightarrow>
                    if length rmdses \<noteq> 1 then
                      (Err (MDServerError (ErrExpectedOneMD (length rmdses))), s2)
                    else (Ok (Some (hd rmdses), True), s2))
             else (Ok (head, False), s1))"

definition putCheckSuccessor ::
  "collaborators \<Rightarrow> RootMetadataSigned option \<Rightarrow> RootMetadataSigned \<Rightarrow> unit result" where
  "putCheckSuccessor env head rmds =
     (case head of
        None \<Rightarrow> Ok ()
      | Some h \<Rightarrow>
          (case MakeMdID env (MD h) of
             Inl msg \<Rightarrow> Err (MDServerError (ErrCollaborator msg))
           | Inr headID \<Rightarrow>
               (case CheckValidSuccessorForServer env (MD h) headID (MD rmds) of
                  Some msg \<Rightarrow> Err (ErrInvalidSuccessor msg)
                | None \<Rightarrow> Ok ())))"

definition putPersist ::
  "collaborators \<Rightarrow> RootMetadataSigned \<Rightarrow> ExtraMetadata option \<Rightarrow> bool \<Rightarrow> mdServerTlfStorage \<Rightarrow>
   bool result \<times> mdServerTlfStorage" where
  "putPersist env rmds extra recordBranchID s =
     (case putMDLocked env rmds s of
        (Err e, s1) \<Rightarrow> (Err (MDServerError e), s1)
      | (Panic msg, s1) \<Rightarrow> (Panic msg, s1)
      | (Ok mid, s1) \<Rightarrow>
          (case putExtraMetadataLocked env rmds extra s1 of
             (Err e, s2) \<Rightarrow> (Err (MDServerError e), s2)
           | (Panic msg, s2) \<Rightarrow> (Panic msg, s2)
           | (Ok _, s2) \<Rightarrow>
               (case getOrCreateBranchJournalLocked (BID (MD rmds)) s2 of
                  (Err e, s3) \<Rightarrow> (Err e, s3)
                | (Panic msg, s3) \<Rightarrow> (Panic msg, s3)
                | (Ok j, s3) \<Rightarrow>
                    (case mdIDJournal_append j (RevisionNumber (MD rmds)) \<lparr>ID = mid\<rparr> s3 of
                       (Err e, s4) \<Rightarrow> (Err (MDServerError e), s4)
                     | (Panic msg, s4) \<Rightarrow> (Panic msg, s4)
                     | (Ok _, s4) \<Rightarrow> (Ok recordBranchID, s4)))))"

definition put ::
  "collaborators \<Rightarrow> UID \<Rightarrow> VerifyingKey \<Rightarrow> RootMetadataSigned \<Rightarrow> ExtraMetadata option \<Rightarrow>
   mdServerTlfStorage \<Rightarrow> bool result \<times> mdServerTlfStorage" where
  "put env currentUID currentVerifyingKey rmds extra s =
     (if isShutdownReadLocked s then (Err errMDServerTlfStorageShutdown, s)
      else
        (case putResolveExtra env rmds extra s of
           (Err e, s1) \<Rightarrow> (Err e, s1)
         | (Panic msg, s1) \<Rightarrow> (Panic msg, s1)
         | (Ok extra', s1) \<Rightarrow>
             (case putCheckPermissions env currentUID currentVerifyingKey rmds extra' s1 of
                (Err e, s2) \<Rightarrow> (Err e, s2)
              | (Panic msg, s2) \<Rightarrow> (Panic msg, s2)
              | (Ok _, s2) \<Rightarrow>
                  (case putComparisonHead env currentUID rmds s2 of
                     (Err e, s3) \<Rightarrow> (Err e, s3)
                   | (Panic msg, s3) \<Rightarrow> (Panic msg, s3)
                   | (Ok (head, recordBranchID), s3) \<Rightarrow>
                       (case putCheckSuccessor env head rmds of
                          Err e \<Rightarrow> (Err e, s3)
                        | Panic msg \<Rightarrow> (Panic msg, s3)
                        | Ok _ \<Rightarrow> putPersist env rmds extra' recordBranchID s3)))))"

definition getKeyBundles ::
  "collaborators \<Rightarrow> TLFWriterKeyBundleID \<Rightarrow> TLFReaderKeyBundleID \<Rightarrow> mdServerTlfStorage \<Rightarrow>
   (TLFWriterKeyBundleV3 option \<times> TLFReaderKeyBundleV3 option) result \<times> mdServerTlfStorage" where
  "getKeyBundles env wkbID rkbID s = getKeyBundlesReadLocked env wkbID rkbID s"

definition shutdown :: "mdServerTlfStorage \<Rightarrow> mdServerTlfStorage" where
  "shutdown s = s\<lparr>branchJournals := None\<rparr>"

subsection \<open>What a call leaves unchanged\<close>

definition isReadAccess :: "fsAccess \<Rightarrow> bool" where
  "isReadAccess a = (case a of FsRead _ \<Rightarrow> True | JournalRead _ \<Rightarrow> True | _ \<Rightarrow> False)"

text \<open>\<open>readOnly s s'\<close>: the state \<open>s'\<close> is \<open>s\<close> with read accesses added to the log, and
  nothing else changed.\<close>

definition readOnly :: "mdServerTlfStorage \<Rightarrow> mdServerTlfStorage \<Rightarrow> bool" where
  "readOnly s s' =
     (\<exists>ext. s' = s\<lparr>accesses := accesses s @ ext\<rparr> \<and> list_all isReadAccess ext)"

text \<open>A path lies under a directory when the directory's components are a prefix of it.\<close>

definition isUnder :: "path \<Rightarrow> path \<Rightarrow> bool" where
  "isUnder d p = (take (length d) p = d)"

text \<open>\<open>writesOnlyUnder d s s'\<close>: outside the directory \<open>d\<close> the files of \<open>s'\<close> are those
  of \<open>s\<close> and no file write has been logged between \<open>s\<close> and \<open>s'\<close>.\<close>

definition writesOnlyUnder :: "path \<Rightarrow> mdServerTlfStorage \<Rightarrow> mdServerTlfStorage \<Rightarrow> bool" where
  "writesOnlyUnder d s s' =
     (dir s' = dir s
      \<and> (\<forall>q. \<not> isUnder d q \<longrightarrow> files s' q = files s q)
      \<and> (\<forall>q. \<not> isUnder d q \<longrightarrow> FsWrite q \<in> set (accesses s') \<longrightarrow> FsWrite q \<in> set (accesses s)))"


text \<open>The errors \<open>put\<close> returns on purpose in a typed form: a wrapped storage error, a
  bad request, or unauthorized.\<close>

definition wrappedOrRequestError :: "error \<Rightarrow> bool" where
  "wrappedOrRequestError e =
     (case e of
        MDServerError _ \<Rightarrow> True
      | MDServerErrorBadRequest _ \<Rightarrow> True
      | MDServerErrorUnauthorized \<Rightarrow> True
      | _ \<Rightarrow> False)"

text \<open>\<open>logOnly f\<close>: the result of \<open>f\<close> does not depend on the log, and \<open>f\<close> changes
  nothing but the log.\<close>

definition logOnly :: "(mdServerTlfStorage \<Rightarrow> 'a \<times> mdServerTlfStorage) \<Rightarrow> bool" where
  "logOnly f = (\<forall>s l. \<exists>l'. f (s\<lparr>accesses := l\<rparr>) = (fst (f s), s\<lparr>accesses := l'\<rparr>))"

subsection \<open>What the storage holds\<close>





subsection \<open>Example collaborators and objects\<close>

text \<open>
  A concrete instance on which the theorems below are exercised. The content address of
  a metadata object is \<open>01ab\<close> followed by its payload, that of a bundle a letter followed
  by its content; three objects can be encoded and decoded; only \<open>alice\<close> reads and
  writes; a successor carries the revision of its predecessor plus one.
\<close>

definition exampleRMDS ::
  "string \<Rightarrow> MetadataRevision \<Rightarrow> BranchID \<Rightarrow> MergeStatus \<Rightarrow> RootMetadataSigned" where
  "exampleRMDS tag r b m =
     \<lparr>MD = \<lparr>GetTLFWriterKeyBundleID = [], GetTLFReaderKeyBundleID = [], BID = b,
             MergedStatus = m, RevisionNumber = r, MDVersion = 1, Payload = tag\<rparr>,
      SigInfo = ''sig'', untrustedServerTimestamp = 0\<rparr>"

definition exampleCollaborators :: collaborators where
  "exampleCollaborators =
     \<lparr>MakeMdID = (\<lambda>md. Inr (''01ab'' @ Payload md)),
      MakeTLFWriterKeyBundleID = (\<lambda>b. case b of WriterKeyBundle x \<Rightarrow> Inr (''w'' @ x)),
      MakeTLFReaderKeyBundleID = (\<lambda>b. case b of ReaderKeyBundle x \<Rightarrow> Inr (''r'' @ x)),
      EncodeRootMetadataSigned = (\<lambda>r. Inr (Payload (MD r))),
      DecodeRootMetadataSigned = (\<lambda>t v mv b ts.
         if b = ''m1'' then Inr (exampleRMDS ''m1'' 1 NullBranchID Merged)
         else if b = ''m2'' then Inr (exampleRMDS ''m2'' 2 NullBranchID Merged)
         else if b = ''u2'' then Inr (exampleRMDS ''u2'' 2 ''b1'' Unmerged)
         else Inl ''cannot decode''),
      isReader = (\<lambda>u md extra. Inr (u = ''alice'')),
      isWriterOrValidRekey = (\<lambda>u prev new prevExtra extra. Inr (u = ''alice'')),
      IsValidAndSigned = (\<lambda>r extra. None),
      IsLastModifiedBy = (\<lambda>r u k. None),
      CheckValidSuccessorForServer = (\<lambda>prev prevID new.
         if RevisionNumber new = RevisionNumber prev + 1 then None
         else Some ''revision is not the successor'')\<rparr>"

definition exampleStorage :: mdServerTlfStorage where
  "exampleStorage =
     makeMDServerTlfStorage ''tlf'' 7 1 [''root''] Map.empty Map.empty (\<lambda>a. None)"

text \<open>The storage after \<open>alice\<close> has put the first merged revision \<open>m1\<close> into the
  empty storage (lemma \<open>put_first_revision\<close> below), with an empty log.\<close>

definition exampleStorage1 :: mdServerTlfStorage where
  "exampleStorage1 =
     exampleStorage
       \<lparr>branchJournals :=
          Some [NullBranchID \<mapsto> \<lparr>jdir = [''root'', ''md_branch_journals'', NullBranchID]\<rparr>],
        files :=
          [[''root'', ''mds'', ''01ab'', ''m1''] \<mapsto>
             RMDSFile \<lparr>EncodedRMDS = ''m1'', Timestamp = 7, Version = 1\<rparr>],
        journals :=
          [[''root'', ''md_branch_journals'', NullBranchID] \<mapsto>
             \<lparr>earliest = 1, entries = [\<lparr>ID = ''01abm1''\<rparr>]\<rparr>]\<rparr>"


text \<open>The append to the journal of branch \<open>b1\<close> fails.\<close>

definition appendFault :: "fsAccess \<Rightarrow> string option" where
  "appendFault a =
     (if a = JournalAppend [''root'', ''md_branch_journals'', ''b1''] then Some ''disk full''
      else None)"

text \<open>The storage after \<open>alice\<close> has tried to put the unmerged revision \<open>u2\<close> of branch \<open>b1\<close>
  into \<open>exampleStorage1\<close> while the append to the journal failed (lemma
  \<open>put_with_failing_append\<close> below), with an empty log and the failure gone: the object is
  stored, the branch has its directory and its handle, the journal has no entry.\<close>

definition exampleStorage2 :: mdServerTlfStorage where
  "exampleStorage2 =
     exampleStorage
       \<lparr>branchJournals :=
          Some [NullBranchID \<mapsto> \<lparr>jdir = [''root'', ''md_branch_journals'', NullBranchID]\<rparr>,
                ''b1'' \<mapsto> \<lparr>jdir = [''root'', ''md_branch_journals'', ''b1'']\<rparr>],
        files :=
          [[''root'', ''mds'', ''01ab'', ''m1''] \<mapsto>
             RMDSFile \<lparr>EncodedRMDS = ''m1'', Timestamp = 7, Version = 1\<rparr>,
           [''root'', ''mds'', ''01ab'', ''u2''] \<mapsto>
             RMDSFile \<lparr>EncodedRMDS = ''u2'', Timestamp = 7, Version = 1\<rparr>],
        journals :=
          [[''root'', ''md_branch_journals'', NullBranchID] \<mapsto>
             \<lparr>earliest = 1, entries = [\<lparr>ID = ''01abm1''\<rparr>]\<rparr>,
           [''root'', ''md_branch_journals'', ''b1''] \<mapsto>
             \<lparr>earliest = 0, entries = []\<rparr>]\<rparr>"

section \<open>Properties\<close>

subsection \<open>Unfolding rules\<close>

lemmas fs_defs = readFile_def DeserializeRMDSFromFile_def DeserializeWKBFromFile_def DeserializeRKBFromFile_def SerializeToFile_def MkdirAll_def logAccess_def
lemmas j_defs = makeMdIDJournal_def readJournal_def mdIDJournal_length_def mdIDJournal_getLatestEntry_def entryRange_def mdIDJournal_getEntryRange_def mdIDJournal_append_def
lemmas path_defs = Join_def branchJournalsPath_def mdsPath_def writerKeyBundleV3Path_def readerKeyBundleV3Path_def mdPath_def
lemmas op_defs = getMDReadLocked_def putMDLocked_def lookupBranchJournal_def getOrCreateBranchJournalLocked_def getHeadForTLFReadLocked_def checkKeyBundlesV3_def getKeyBundlesReadLocked_def getExtraMetadataReadLocked_def putExtraMetadataLocked_def checkGetParamsReadLocked_def getRangeReadLocked_def isShutdownReadLocked_def journalLength_def getForTLF_def getRange_def putResolveExtra_def putCheckPermissions_def putComparisonHead_def putCheckSuccessor_def putPersist_def put_def getKeyBundles_def shutdown_def makeMDServerTlfStorage_def IsNotExist_def
lemmas ex_defs = exampleRMDS_def exampleCollaborators_def exampleStorage_def NullBranchID_def

subsection \<open>Read paths only add read accesses to the log\<close>

lemma readOnly_refl: "readOnly s s"
  unfolding readOnly_def by (rule exI[of _ "[]"]) simp

lemma readOnly_trans: "readOnly s s1 \<Longrightarrow> readOnly s1 s2 \<Longrightarrow> readOnly s s2"
  unfolding readOnly_def
proof (elim exE conjE)
  fix e1 e2
  assume a: "s1 = s\<lparr>accesses := accesses s @ e1\<rparr>" "list_all isReadAccess e1"
    "s2 = s1\<lparr>accesses := accesses s1 @ e2\<rparr>" "list_all isReadAccess e2"
  then have "s2 = s\<lparr>accesses := accesses s @ (e1 @ e2)\<rparr> \<and> list_all isReadAccess (e1 @ e2)"
    by simp
  then show "\<exists>ext. s2 = s\<lparr>accesses := accesses s @ ext\<rparr> \<and> list_all isReadAccess ext"
    by blast
qed

lemma readOnly_logAccess: "isReadAccess a \<Longrightarrow> readOnly s (logAccess a s)"
  unfolding readOnly_def logAccess_def by (rule exI[of _ "[a]"]) simp

lemma readOnly_fields:
  assumes "readOnly s s'"
  shows "files s' = files s" "journals s' = journals s" "branchJournals s' = branchJournals s"
    "dir s' = dir s" "ioFault s' = ioFault s" "tlfID s' = tlfID s" "mdVer s' = mdVer s"
    "clockNow s' = clockNow s"
  using assms unfolding readOnly_def by auto

lemma readFile_readOnly: "readFile p s = (r, s') \<Longrightarrow> readOnly s s'"
  unfolding readFile_def Let_def
  by (auto split: option.splits simp: isReadAccess_def intro!: readOnly_logAccess)

lemma DeserializeRMDSFromFile_readOnly: "DeserializeRMDSFromFile p s = (r, s') \<Longrightarrow> readOnly s s'"
  unfolding DeserializeRMDSFromFile_def
  by (auto split: prod.splits result.splits fileContent.splits dest: readFile_readOnly)

lemma DeserializeWKBFromFile_readOnly: "DeserializeWKBFromFile p s = (r, s') \<Longrightarrow> readOnly s s'"
  unfolding DeserializeWKBFromFile_def
  by (auto split: prod.splits result.splits fileContent.splits dest: readFile_readOnly)

lemma DeserializeRKBFromFile_readOnly: "DeserializeRKBFromFile p s = (r, s') \<Longrightarrow> readOnly s s'"
  unfolding DeserializeRKBFromFile_def
  by (auto split: prod.splits result.splits fileContent.splits dest: readFile_readOnly)

lemma mdIDJournal_length_readOnly: "mdIDJournal_length j s = (r, s') \<Longrightarrow> readOnly s s'"
  unfolding mdIDJournal_length_def Let_def
  by (auto split: option.splits simp: isReadAccess_def intro!: readOnly_logAccess)

lemma mdIDJournal_getLatestEntry_readOnly:
  "mdIDJournal_getLatestEntry j s = (r, s') \<Longrightarrow> readOnly s s'"
  unfolding mdIDJournal_getLatestEntry_def Let_def
  by (auto split: option.splits list.splits simp: isReadAccess_def intro!: readOnly_logAccess)

lemma mdIDJournal_getEntryRange_readOnly:
  "mdIDJournal_getEntryRange j a b s = (r, s') \<Longrightarrow> readOnly s s'"
  unfolding mdIDJournal_getEntryRange_def Let_def
  by (auto split: option.splits simp: isReadAccess_def intro!: readOnly_logAccess)

lemma getMDReadLocked_readOnly: "getMDReadLocked env mid s = (r, s') \<Longrightarrow> readOnly s s'"
  unfolding getMDReadLocked_def
  by (auto split: option.splits prod.splits result.splits sum.splits if_splits
      dest: DeserializeRMDSFromFile_readOnly intro: readOnly_refl)

lemma getHeadForTLFReadLocked_readOnly:
  "getHeadForTLFReadLocked env bid s = (r, s') \<Longrightarrow> readOnly s s'"
  unfolding getHeadForTLFReadLocked_def
  by (auto split: option.splits prod.splits result.splits
      dest!: mdIDJournal_getLatestEntry_readOnly getMDReadLocked_readOnly
      intro: readOnly_refl readOnly_trans)

lemma getKeyBundlesReadLocked_readOnly:
  "getKeyBundlesReadLocked env w r s = (res, s') \<Longrightarrow> readOnly s s'"
  unfolding getKeyBundlesReadLocked_def
  by (auto split: option.splits prod.splits result.splits if_splits
      dest!: DeserializeWKBFromFile_readOnly DeserializeRKBFromFile_readOnly
      intro: readOnly_refl readOnly_trans)

lemma getExtraMetadataReadLocked_readOnly:
  "getExtraMetadataReadLocked env w r s = (res, s') \<Longrightarrow> readOnly s s'"
  unfolding getExtraMetadataReadLocked_def
  by (auto split: option.splits prod.splits result.splits
      dest!: getKeyBundlesReadLocked_readOnly)

lemma checkGetParamsReadLocked_readOnly:
  "checkGetParamsReadLocked env u bid s = (res, s') \<Longrightarrow> readOnly s s'"
  unfolding checkGetParamsReadLocked_def
  by (auto split: option.splits prod.splits result.splits sum.splits if_splits
      dest!: getHeadForTLFReadLocked_readOnly getExtraMetadataReadLocked_readOnly
      intro: readOnly_trans)

lemma resolveEntries_readOnly:
  "resolveEntries env rs i ents s = (res, s') \<Longrightarrow> readOnly s s'"
proof (induction ents arbitrary: i s res s')
  case Nil
  then show ?case by (simp add: readOnly_refl)
next
  case (Cons e ents)
  show ?case
  proof (cases "getMDReadLocked env (ID e) s")
    case (Pair r1 s1)
    then have ro1: "readOnly s s1" by (rule getMDReadLocked_readOnly)
    show ?thesis
    proof (cases "\<exists>rmds. r1 = Ok rmds \<and> rs + int i = RevisionNumber (MD rmds)")
      case True
      then obtain rmds where r1: "r1 = Ok rmds" and rev: "rs + int i = RevisionNumber (MD rmds)"
        by blast
      obtain r2 s2 where rest: "resolveEntries env rs (Suc i) ents s1 = (r2, s2)"
        by (cases "resolveEntries env rs (Suc i) ents s1")
      from Cons.IH[OF rest] have ro2: "readOnly s1 s2" .
      from Cons.prems Pair r1 rev rest have "s' = s2"
        by (auto simp: Let_def split: result.splits)
      with ro1 ro2 show ?thesis by (blast intro: readOnly_trans)
    next
      case False
      with Cons.prems Pair have "s' = s1"
        by (auto simp: Let_def split: result.splits if_splits)
      with ro1 show ?thesis by simp
    qed
  qed
qed

lemma getRangeReadLocked_readOnly:
  "getRangeReadLocked env u bid a b s = (res, s') \<Longrightarrow> readOnly s s'"
  unfolding getRangeReadLocked_def
  by (auto split: option.splits prod.splits result.splits
      dest!: checkGetParamsReadLocked_readOnly mdIDJournal_getEntryRange_readOnly
        resolveEntries_readOnly
      intro: readOnly_trans)

subsection \<open>The result of a read does not depend on the log\<close>

lemma logOnlyD:
  assumes "logOnly f"
  obtains l' where "f (s\<lparr>accesses := l\<rparr>) = (fst (f s), s\<lparr>accesses := l'\<rparr>)"
  using assms unfolding logOnly_def by blast

lemma logOnlyD0:
  assumes "logOnly f"
  obtains l' where "f s = (fst (f s), s\<lparr>accesses := l'\<rparr>)"
proof -
  from assms obtain l' where "f (s\<lparr>accesses := accesses s\<rparr>) = (fst (f s), s\<lparr>accesses := l'\<rparr>)"
    by (rule logOnlyD)
  then have "f s = (fst (f s), s\<lparr>accesses := l'\<rparr>)" by simp
  then show thesis by (rule that)
qed

lemma logOnly_fst: "logOnly f \<Longrightarrow> fst (f (s\<lparr>accesses := l\<rparr>)) = fst (f s)"
  by (erule logOnlyD[where s=s and l=l]) simp

lemma logOnly_readOnly: "logOnly f \<Longrightarrow> readOnly s t \<Longrightarrow> fst (f t) = fst (f s)"
  unfolding readOnly_def using logOnly_fst by fastforce

lemma readFile_logOnly: "logOnly (readFile p)"
  unfolding logOnly_def
  by (auto simp add: readFile_def logAccess_def Let_def split: option.splits)

lemma DeserializeRMDSFromFile_logOnly: "logOnly (DeserializeRMDSFromFile p)"
  unfolding logOnly_def
proof (intro allI)
  fix s l
  obtain l1 where a: "readFile p (s\<lparr>accesses := l\<rparr>) = (fst (readFile p s), s\<lparr>accesses := l1\<rparr>)"
    using readFile_logOnly by (rule logOnlyD)
  obtain l2 where b: "readFile p s = (fst (readFile p s), s\<lparr>accesses := l2\<rparr>)"
    using readFile_logOnly by (rule logOnlyD0)
  show "\<exists>l'. DeserializeRMDSFromFile p (s\<lparr>accesses := l\<rparr>) =
       (fst (DeserializeRMDSFromFile p s), s\<lparr>accesses := l'\<rparr>)"
    unfolding DeserializeRMDSFromFile_def
    apply (subst b)
    apply (subst a)
    apply (cases "fst (readFile p s)")
    subgoal for c by (cases c) auto
    by auto
qed


lemma mdPath_log: "mdPath (s\<lparr>accesses := l\<rparr>) mid = mdPath s mid"
  by (simp add: path_defs)

lemma getMDReadLocked_logOnly: "logOnly (getMDReadLocked env mid)"
  unfolding logOnly_def
proof (intro allI)
  fix s l
  show "\<exists>l'. getMDReadLocked env mid (s\<lparr>accesses := l\<rparr>) =
       (fst (getMDReadLocked env mid s), s\<lparr>accesses := l'\<rparr>)"
  proof (cases "mdPath s mid")
    case None
    then have "mdPath (s\<lparr>accesses := l\<rparr>) mid = None" by (simp add: mdPath_log)
    with None show ?thesis by (auto simp add: getMDReadLocked_def)
  next
    case (Some p)
    then have p': "mdPath (s\<lparr>accesses := l\<rparr>) mid = Some p" by (simp add: mdPath_log)
    obtain l1 where a: "DeserializeRMDSFromFile p (s\<lparr>accesses := l\<rparr>) =
        (fst (DeserializeRMDSFromFile p s), s\<lparr>accesses := l1\<rparr>)"
      using DeserializeRMDSFromFile_logOnly by (rule logOnlyD)
    obtain l2 where b: "DeserializeRMDSFromFile p s =
        (fst (DeserializeRMDSFromFile p s), s\<lparr>accesses := l2\<rparr>)"
      using DeserializeRMDSFromFile_logOnly by (rule logOnlyD0)
    show ?thesis
      unfolding getMDReadLocked_def Some p' option.case
      apply (subst b)
      apply (subst a)
      apply (cases "fst (DeserializeRMDSFromFile p s)")
      by (auto split: sum.splits)
  qed
qed

lemma mdIDJournal_getLatestEntry_logOnly: "logOnly (mdIDJournal_getLatestEntry j)"
  unfolding logOnly_def
  by (auto simp add: j_defs logAccess_def Let_def split: option.splits list.splits)

lemma getHeadForTLFReadLocked_logOnly: "logOnly (getHeadForTLFReadLocked env bid)"
  unfolding logOnly_def
proof (intro allI)
  fix s l
  show "\<exists>l'. getHeadForTLFReadLocked env bid (s\<lparr>accesses := l\<rparr>) =
       (fst (getHeadForTLFReadLocked env bid s), s\<lparr>accesses := l'\<rparr>)"
  proof (cases "lookupBranchJournal s bid")
    case None
    then have "lookupBranchJournal (s\<lparr>accesses := l\<rparr>) bid = None"
      by (simp add: lookupBranchJournal_def)
    with None show ?thesis by (auto simp add: getHeadForTLFReadLocked_def)
  next
    case (Some j)
    then have j': "lookupBranchJournal (s\<lparr>accesses := l\<rparr>) bid = Some j"
      by (simp add: lookupBranchJournal_def)
    obtain l1 where a: "mdIDJournal_getLatestEntry j (s\<lparr>accesses := l\<rparr>) =
        (fst (mdIDJournal_getLatestEntry j s), s\<lparr>accesses := l1\<rparr>)"
      using mdIDJournal_getLatestEntry_logOnly by (rule logOnlyD)
    obtain l2 where b: "mdIDJournal_getLatestEntry j s =
        (fst (mdIDJournal_getLatestEntry j s), s\<lparr>accesses := l2\<rparr>)"
      using mdIDJournal_getLatestEntry_logOnly by (rule logOnlyD0)
    show ?thesis
    proof (cases "fst (mdIDJournal_getLatestEntry j s)")
      case (Ok latest)
      show ?thesis
      proof (cases latest)
        case None
        with Ok show ?thesis
          unfolding getHeadForTLFReadLocked_def Some j' option.case
          by (subst b, subst a) auto
      next
        case (Some entry)
        obtain l3 where c: "getMDReadLocked env (ID entry) (s\<lparr>accesses := l1\<rparr>) =
            (fst (getMDReadLocked env (ID entry) s), s\<lparr>accesses := l3\<rparr>)"
          using getMDReadLocked_logOnly by (rule logOnlyD)
        obtain l4 where d: "getMDReadLocked env (ID entry) (s\<lparr>accesses := l2\<rparr>) =
            (fst (getMDReadLocked env (ID entry) s), s\<lparr>accesses := l4\<rparr>)"
          using getMDReadLocked_logOnly by (rule logOnlyD)
        from Ok Some show ?thesis
          unfolding getHeadForTLFReadLocked_def \<open>lookupBranchJournal s bid = Some j\<close> j' option.case
          apply (subst b, subst a)
          apply (simp add: c d)
          apply (cases "fst (getMDReadLocked env (ID entry) s)")
          by auto
      qed
    next
      case (Err e)
      then show ?thesis
        unfolding getHeadForTLFReadLocked_def Some j' option.case
        by (subst b, subst a) auto
    next
      case (Panic m)
      then show ?thesis
        unfolding getHeadForTLFReadLocked_def Some j' option.case
        by (subst b, subst a) auto
    qed
  qed
qed

subsection \<open>The example instance\<close>

lemma exampleCollaborators_simps:
  "MakeMdID exampleCollaborators md = Inr (''01ab'' @ Payload md)"
  "MakeTLFWriterKeyBundleID exampleCollaborators (WriterKeyBundle x) = Inr (''w'' @ x)"
  "MakeTLFReaderKeyBundleID exampleCollaborators (ReaderKeyBundle x) = Inr (''r'' @ x)"
  "EncodeRootMetadataSigned exampleCollaborators r = Inr (Payload (MD r))"
  "DecodeRootMetadataSigned exampleCollaborators t v mv b ts =
     (if b = ''m1'' then Inr (exampleRMDS ''m1'' 1 NullBranchID Merged)
      else if b = ''m2'' then Inr (exampleRMDS ''m2'' 2 NullBranchID Merged)
      else if b = ''u2'' then Inr (exampleRMDS ''u2'' 2 ''b1'' Unmerged)
      else Inl ''cannot decode'')"
  "isReader exampleCollaborators u md extra = Inr (u = ''alice'')"
  "isWriterOrValidRekey exampleCollaborators u prev new prevExtra extra = Inr (u = ''alice'')"
  "IsValidAndSigned exampleCollaborators r extra = None"
  "IsLastModifiedBy exampleCollaborators r u k = None"
  "CheckValidSuccessorForServer exampleCollaborators prev prevID new =
     (if RevisionNumber new = RevisionNumber prev + 1 then None
      else Some ''revision is not the successor'')"
  by (simp_all add: exampleCollaborators_def)

lemma exampleStorage_simps:
  "tlfID exampleStorage = ''tlf''" "mdVer exampleStorage = 1" "clockNow exampleStorage = 7"
  "dir exampleStorage = [''root'']" "branchJournals exampleStorage = Some Map.empty"
  "files exampleStorage = Map.empty" "journals exampleStorage = Map.empty"
  "ioFault exampleStorage = (\<lambda>a. None)" "accesses exampleStorage = []"
  by (simp_all add: exampleStorage_def makeMDServerTlfStorage_def)

lemma exampleStorage1_simps:
  "tlfID exampleStorage1 = ''tlf''" "mdVer exampleStorage1 = 1" "clockNow exampleStorage1 = 7"
  "dir exampleStorage1 = [''root'']"
  "branchJournals exampleStorage1 =
     Some [NullBranchID \<mapsto> \<lparr>jdir = [''root'', ''md_branch_journals'', NullBranchID]\<rparr>]"
  "files exampleStorage1 =
     [[''root'', ''mds'', ''01ab'', ''m1''] \<mapsto>
        RMDSFile \<lparr>EncodedRMDS = ''m1'', Timestamp = 7, Version = 1\<rparr>]"
  "journals exampleStorage1 =
     [[''root'', ''md_branch_journals'', NullBranchID] \<mapsto>
        \<lparr>earliest = 1, entries = [\<lparr>ID = ''01abm1''\<rparr>]\<rparr>]"
  "ioFault exampleStorage1 = (\<lambda>a. None)" "accesses exampleStorage1 = []"
  by (simp_all add: exampleStorage1_def exampleStorage_simps)

lemma exampleRMDS_simps:
  "MD (exampleRMDS tag r b m) =
     \<lparr>GetTLFWriterKeyBundleID = [], GetTLFReaderKeyBundleID = [], BID = b,
      MergedStatus = m, RevisionNumber = r, MDVersion = 1, Payload = tag\<rparr>"
  by (simp add: exampleRMDS_def)

lemma put_first_revision:
  "put exampleCollaborators ''alice'' ''key'' (exampleRMDS ''m1'' 1 NullBranchID Merged) None
     exampleStorage =
   (Ok False,
    exampleStorage1
      \<lparr>accesses := [FsRead [''root'', ''mds'', ''01ab'', ''m1''],
                    FsWrite [''root'', ''mds'', ''01ab'', ''m1''],
                    FsMkdirAll [''root'', ''md_branch_journals'', NullBranchID],
                    JournalAppend [''root'', ''md_branch_journals'', NullBranchID]]\<rparr>)"
  by (simp add: op_defs fs_defs j_defs path_defs exampleCollaborators_simps exampleRMDS_simps
      exampleStorage1_def exampleStorage_def Let_def NullBranchID_def)

section \<open>The key-bundle store\<close>

text \<open>
  Claim C3. The key-bundle read \<open>getKeyBundlesReadLocked\<close>, for every pair of bundle ids:
  when both ids are empty it returns "absent" (no bundles, no error) and touches nothing;
  when exactly one id is empty it fails with the malformed-request error
  \<open>ErrKeyBundleIDsEmpty\<close>; when both are non-empty and both files hold readable bundles
  whose content addresses can be computed, it reads the writer bundle and then the reader
  bundle at their derived paths, fails with the integrity error \<open>ErrWKBIDMismatch\<close> or
  \<open>ErrRKBIDMismatch\<close> when a recomputed address differs from the requested id, and
  otherwise returns the verified pair.
\<close>

theorem getKeyBundlesReadLocked_cases:
  "(wkbID = [] \<and> rkbID = [] \<longrightarrow>
      getKeyBundlesReadLocked env wkbID rkbID s = (Ok (None, None), s))
   \<and> ((wkbID = []) \<noteq> (rkbID = []) \<longrightarrow>
      getKeyBundlesReadLocked env wkbID rkbID s =
        (Err (ErrKeyBundleIDsEmpty (wkbID = []) (rkbID = [])), s))
   \<and> (wkbID \<noteq> [] \<and> rkbID \<noteq> []
       \<and> files s (writerKeyBundleV3Path s wkbID) = Some (WKBFile w)
       \<and> ioFault s (FsRead (writerKeyBundleV3Path s wkbID)) = None
       \<and> files s (readerKeyBundleV3Path s rkbID) = Some (RKBFile r)
       \<and> ioFault s (FsRead (readerKeyBundleV3Path s rkbID)) = None
       \<and> MakeTLFWriterKeyBundleID env w = Inr computedWKBID
       \<and> MakeTLFReaderKeyBundleID env r = Inr computedRKBID \<longrightarrow>
      accesses (snd (getKeyBundlesReadLocked env wkbID rkbID s)) =
        accesses s @ [FsRead (writerKeyBundleV3Path s wkbID),
                      FsRead (readerKeyBundleV3Path s rkbID)]
      \<and> fst (getKeyBundlesReadLocked env wkbID rkbID s) =
        (if wkbID \<noteq> computedWKBID then Err (ErrWKBIDMismatch wkbID computedWKBID)
         else if rkbID \<noteq> computedRKBID then Err (ErrRKBIDMismatch rkbID computedRKBID)
         else Ok (Some w, Some r)))"
  by (simp add: getKeyBundlesReadLocked_def checkKeyBundlesV3_def fs_defs path_defs)

theorem getKeyBundlesReadLocked_cases_witness:
  "fst (getKeyBundlesReadLocked exampleCollaborators [] [] exampleStorage) = Ok (None, None)
   \<and> fst (getKeyBundlesReadLocked exampleCollaborators ''wA'' [] exampleStorage) =
       Err (ErrKeyBundleIDsEmpty False True)
   \<and> fst (getKeyBundlesReadLocked exampleCollaborators ''wA'' ''rB''
       (exampleStorage\<lparr>files := [[''root'', ''wkbv3'', ''wA''] \<mapsto> WKBFile (WriterKeyBundle ''A''),
                                 [''root'', ''rkbv3'', ''rB''] \<mapsto> RKBFile (ReaderKeyBundle ''B'')]\<rparr>)) =
       Ok (Some (WriterKeyBundle ''A''), Some (ReaderKeyBundle ''B''))
   \<and> fst (getKeyBundlesReadLocked exampleCollaborators ''wA'' ''rB''
       (exampleStorage\<lparr>files := [[''root'', ''wkbv3'', ''wA''] \<mapsto> WKBFile (WriterKeyBundle ''A''),
                                 [''root'', ''rkbv3'', ''rB''] \<mapsto> RKBFile (ReaderKeyBundle ''X'')]\<rparr>)) =
       Err (ErrRKBIDMismatch ''rB'' ''rX'')"
  using getKeyBundlesReadLocked_cases [where wkbID="[]" and rkbID="[]"
       and env=exampleCollaborators and s=exampleStorage]
    getKeyBundlesReadLocked_cases [where wkbID="''wA''" and rkbID="[]"
       and env=exampleCollaborators and s=exampleStorage]
    getKeyBundlesReadLocked_cases [where wkbID="''wA''" and rkbID="''rB''"
       and env=exampleCollaborators
       and s="exampleStorage\<lparr>files := [[''root'', ''wkbv3'', ''wA''] \<mapsto> WKBFile (WriterKeyBundle ''A''),
                                 [''root'', ''rkbv3'', ''rB''] \<mapsto> RKBFile (ReaderKeyBundle ''B'')]\<rparr>"
       and w="WriterKeyBundle ''A''" and r="ReaderKeyBundle ''B''"
       and computedWKBID="''wA''" and computedRKBID="''rB''"]
    getKeyBundlesReadLocked_cases [where wkbID="''wA''" and rkbID="''rB''"
       and env=exampleCollaborators
       and s="exampleStorage\<lparr>files := [[''root'', ''wkbv3'', ''wA''] \<mapsto> WKBFile (WriterKeyBundle ''A''),
                                 [''root'', ''rkbv3'', ''rB''] \<mapsto> RKBFile (ReaderKeyBundle ''X'')]\<rparr>"
       and w="WriterKeyBundle ''A''" and r="ReaderKeyBundle ''X''"
       and computedWKBID="''wA''" and computedRKBID="''rX''"]
  by (simp add: exampleCollaborators_simps exampleStorage_simps path_defs)

section \<open>The object store\<close>

text \<open>
  Claim C7. \<open>getMDReadLocked\<close>, for every id with derived path \<open>p\<close>: it reads the
  envelope at \<open>p\<close> (the one access it logs); when no file exists at \<open>p\<close> it fails with
  the not-found error (the error of \<^verbatim>\<open>os.IsNotExist\<close>); when the file is a readable
  envelope that decodes, it recomputes the content address of the decoded payload and
  fails with the integrity error \<open>ErrMdIDMismatch\<close> when it differs from the requested
  id, returning the decoded object otherwise.
\<close>

theorem getMDReadLocked_verifies:
  "mdPath s mid = Some p \<longrightarrow>
     accesses (snd (getMDReadLocked env mid s)) = accesses s @ [FsRead p]
     \<and> (files s p = None \<longrightarrow>
          fst (getMDReadLocked env mid s) = Err ErrNotExist \<and> IsNotExist ErrNotExist)
     \<and> (files s p = Some (RMDSFile srmds) \<and> ioFault s (FsRead p) = None
          \<and> DecodeRootMetadataSigned env (tlfID s) (Version srmds) (mdVer s)
                (EncodedRMDS srmds) (Timestamp srmds) = Inr rmds
          \<and> MakeMdID env (MD rmds) = Inr mdID \<longrightarrow>
          fst (getMDReadLocked env mid s) =
            (if mid \<noteq> mdID then Err (ErrMdIDMismatch mid mdID) else Ok rmds))"
  by (auto simp add: getMDReadLocked_def fs_defs IsNotExist_def Let_def
      split: option.splits prod.splits result.splits sum.splits fileContent.splits)

theorem getMDReadLocked_verifies_witness:
  "fst (getMDReadLocked exampleCollaborators ''01abm1'' exampleStorage) = Err ErrNotExist
   \<and> fst (getMDReadLocked exampleCollaborators ''01abm1'' exampleStorage1) =
       Ok (exampleRMDS ''m1'' 1 NullBranchID Merged)
   \<and> accesses (snd (getMDReadLocked exampleCollaborators ''01abm1'' exampleStorage1)) =
       [FsRead [''root'', ''mds'', ''01ab'', ''m1'']]
   \<and> fst (getMDReadLocked exampleCollaborators ''01abm2''
       (exampleStorage1\<lparr>files := [[''root'', ''mds'', ''01ab'', ''m2''] \<mapsto>
          RMDSFile \<lparr>EncodedRMDS = ''m1'', Timestamp = 7, Version = 1\<rparr>]\<rparr>)) =
       Err (ErrMdIDMismatch ''01abm2'' ''01abm1'')"
  using getMDReadLocked_verifies [where s=exampleStorage and mid="''01abm1''"
      and p="[''root'', ''mds'', ''01ab'', ''m1'']" and env=exampleCollaborators]
    getMDReadLocked_verifies [where s=exampleStorage1 and mid="''01abm1''"
      and p="[''root'', ''mds'', ''01ab'', ''m1'']" and env=exampleCollaborators
      and srmds="\<lparr>EncodedRMDS = ''m1'', Timestamp = 7, Version = 1\<rparr>"
      and rmds="exampleRMDS ''m1'' 1 NullBranchID Merged" and mdID="''01abm1''"]
    getMDReadLocked_verifies [where mid="''01abm2''"
      and s="exampleStorage1\<lparr>files := [[''root'', ''mds'', ''01ab'', ''m2''] \<mapsto>
          RMDSFile \<lparr>EncodedRMDS = ''m1'', Timestamp = 7, Version = 1\<rparr>]\<rparr>"
      and p="[''root'', ''mds'', ''01ab'', ''m2'']" and env=exampleCollaborators
      and srmds="\<lparr>EncodedRMDS = ''m1'', Timestamp = 7, Version = 1\<rparr>"
      and rmds="exampleRMDS ''m1'' 1 NullBranchID Merged" and mdID="''01abm1''"]
  by (simp add: exampleCollaborators_simps exampleStorage_simps exampleStorage1_simps
      exampleRMDS_simps path_defs)

lemma mdPath_dir: "dir s' = dir s \<Longrightarrow> mdPath s' mid = mdPath s mid"
  by (simp add: path_defs)

lemma putMDLocked_id:
  "putMDLocked env rmds s = (Ok mid, s') \<Longrightarrow> MakeMdID env (MD rmds) = Inr mid"
  unfolding putMDLocked_def
  by (auto simp add: Let_def split: sum.splits prod.splits result.splits if_splits option.splits)

lemma putMDLocked_existing:
  "MakeMdID env (MD rmds) = Inr mid \<Longrightarrow> getMDReadLocked env mid s = (Ok stored, s1) \<Longrightarrow>
   putMDLocked env rmds s = (Ok mid, s1)"
  unfolding putMDLocked_def by simp

lemma getMDReadLocked_Ok_file:
  "getMDReadLocked env mid s = (Ok x, s1) \<Longrightarrow>
   \<exists>p. mdPath s mid = Some p \<and> files s p \<noteq> None"
  unfolding getMDReadLocked_def
  by (auto simp add: fs_defs Let_def
      split: option.splits prod.splits result.splits sum.splits if_splits fileContent.splits)

lemma getMDReadLocked_NotExist:
  "getMDReadLocked env mid s = (Err ErrNotExist, s1) \<Longrightarrow>
   \<exists>p. mdPath s mid = Some p \<and> files s p = None"
  unfolding getMDReadLocked_def
  by (auto simp add: fs_defs Let_def
      split: option.splits prod.splits result.splits sum.splits if_splits fileContent.splits)

lemma SerializeToFile_Ok:
  "SerializeToFile c p s = (Ok u, s') \<Longrightarrow>
   s' = s\<lparr>accesses := accesses s @ [FsWrite p], files := (files s)(p \<mapsto> c)\<rparr>"
  unfolding SerializeToFile_def logAccess_def
  by (auto simp add: Let_def split: option.splits)

lemma SerializeToFile_Err:
  "SerializeToFile c p s = (Err e, s') \<Longrightarrow> s' = s\<lparr>accesses := accesses s @ [FsWrite p]\<rparr>"
  unfolding SerializeToFile_def logAccess_def
  by (auto simp add: Let_def split: option.splits)

lemma SerializeToFile_no_Panic: "SerializeToFile c p s \<noteq> (Panic m, s')"
  unfolding SerializeToFile_def logAccess_def
  by (auto simp add: Let_def split: option.splits)

text \<open>What a successful \<open>putMDLocked\<close> leaves behind.\<close>

lemma putMDLocked_Ok_cases:
  assumes "putMDLocked env rmds s = (Ok mid, s')"
  shows "(\<exists>stored. getMDReadLocked env mid s = (Ok stored, s'))
     \<or> (\<exists>s1 p enc. getMDReadLocked env mid s = (Err ErrNotExist, s1)
          \<and> mdPath s mid = Some p
          \<and> EncodeRootMetadataSigned env rmds = Inr enc
          \<and> ioFault s (FsWrite p) = None
          \<and> s' = s1\<lparr>accesses := accesses s1 @ [FsWrite p],
                     files := (files s1)(p \<mapsto> RMDSFile \<lparr>EncodedRMDS = enc, Timestamp = clockNow s,
                                   Version = MDVersion (MD rmds)\<rparr>)\<rparr>)"
proof -
  from assms have mk: "MakeMdID env (MD rmds) = Inr mid" by (rule putMDLocked_id)
  obtain r s1 where g: "getMDReadLocked env mid s = (r, s1)" by (cases "getMDReadLocked env mid s")
  then have ro: "readOnly s s1" by (rule getMDReadLocked_readOnly)
  show ?thesis
  proof (cases r)
    case (Ok stored)
    with assms mk g show ?thesis by (simp add: putMDLocked_def)
  next
    case (Panic m)
    with assms mk g show ?thesis by (simp add: putMDLocked_def)
  next
    case (Err e)
    with assms mk g have e: "e = ErrNotExist"
      by (auto simp add: putMDLocked_def IsNotExist_def split: if_splits)
    from g Err e obtain p where p: "mdPath s mid = Some p"
      by (auto dest: getMDReadLocked_NotExist)
    with ro have p1: "mdPath s1 mid = Some p"
      using mdPath_dir [of s1 s mid] by (simp add: readOnly_fields)
    from assms mk g Err e p1 obtain enc where enc: "EncodeRootMetadataSigned env rmds = Inr enc"
      and w: "SerializeToFile (RMDSFile \<lparr>EncodedRMDS = enc, Timestamp = clockNow s1,
                                   Version = MDVersion (MD rmds)\<rparr>) p s1 = (Ok (), s')"
      by (auto simp add: putMDLocked_def IsNotExist_def Let_def
          split: sum.splits prod.splits result.splits)
    from w have nofault: "ioFault s1 (FsWrite p) = None"
      by (auto simp add: SerializeToFile_def Let_def split: option.splits)
    from w have "s' = s1\<lparr>accesses := accesses s1 @ [FsWrite p],
                     files := (files s1)(p \<mapsto> RMDSFile \<lparr>EncodedRMDS = enc, Timestamp = clockNow s1,
                                   Version = MDVersion (MD rmds)\<rparr>)\<rparr>"
      by (rule SerializeToFile_Ok)
    with g Err e p enc nofault ro show ?thesis by (auto simp add: readOnly_fields)
  qed
qed


lemma putMDLocked_Ok_file:
  assumes "putMDLocked env rmds s = (Ok mid, s')"
  shows "\<exists>p. mdPath s mid = Some p \<and> files s' p \<noteq> None \<and> dir s' = dir s
           \<and> (\<forall>q. q \<noteq> p \<longrightarrow> files s' q = files s q)"
  using putMDLocked_Ok_cases [OF assms]
proof (elim disjE exE conjE)
  fix stored
  assume g: "getMDReadLocked env mid s = (Ok stored, s')"
  then have "readOnly s s'" by (rule getMDReadLocked_readOnly)
  with getMDReadLocked_Ok_file [OF g] show ?thesis by (auto simp add: readOnly_fields)
next
  fix s1 p enc
  assume g: "getMDReadLocked env mid s = (Err ErrNotExist, s1)"
    and p: "mdPath s mid = Some p"
    and s': "s' = s1\<lparr>accesses := accesses s1 @ [FsWrite p],
                     files := (files s1)(p \<mapsto> RMDSFile \<lparr>EncodedRMDS = enc, Timestamp = clockNow s,
                                   Version = MDVersion (MD rmds)\<rparr>)\<rparr>"
  from g have "readOnly s s1" by (rule getMDReadLocked_readOnly)
  with p s' show ?thesis by (auto simp add: readOnly_fields)
qed

lemma putMDLocked_twice:
  assumes first: "putMDLocked env rmds s = (Ok mid, s1)"
    and second: "putMDLocked env rmds s1 = (Ok mid', s2)"
  shows "mid' = mid \<and> readOnly s1 s2"
proof -
  from first have mk: "MakeMdID env (MD rmds) = Inr mid" by (rule putMDLocked_id)
  from second have "MakeMdID env (MD rmds) = Inr mid'" by (rule putMDLocked_id)
  with mk have eq: "mid' = mid" by simp
  from putMDLocked_Ok_file [OF first] obtain p where
    p: "mdPath s mid = Some p" and present: "files s1 p \<noteq> None" and d: "dir s1 = dir s"
    by blast
  from p d have p1: "mdPath s1 mid = Some p" using mdPath_dir [of s1 s mid] by simp
  from putMDLocked_Ok_cases [OF second [unfolded eq]] show ?thesis
  proof (elim disjE exE conjE)
    fix stored
    assume "getMDReadLocked env mid s1 = (Ok stored, s2)"
    then have "readOnly s1 s2" by (rule getMDReadLocked_readOnly)
    with eq show ?thesis by simp
  next
    fix t q enc
    assume "getMDReadLocked env mid s1 = (Err ErrNotExist, t)"
    then have "\<exists>p. mdPath s1 mid = Some p \<and> files s1 p = None"
      by (rule getMDReadLocked_NotExist)
    with p1 present show ?thesis by simp
  qed
qed

lemma putMDLocked_again:
  assumes first: "putMDLocked env rmds s = (Ok mid, s1)"
    and p: "mdPath s mid = Some p"
    and readable: "ioFault s (FsRead p) = None"
    and roundtrip: "\<And>enc. EncodeRootMetadataSigned env rmds = Inr enc \<Longrightarrow>
       \<exists>r'. DecodeRootMetadataSigned env (tlfID s) (MDVersion (MD rmds)) (mdVer s) enc (clockNow s)
              = Inr r' \<and> MakeMdID env (MD r') = Inr mid"
  shows "fst (putMDLocked env rmds s1) = Ok mid"
proof -
  from first have mk: "MakeMdID env (MD rmds) = Inr mid" by (rule putMDLocked_id)
  from putMDLocked_Ok_cases [OF first] show ?thesis
  proof (elim disjE exE conjE)
    fix stored
    assume g: "getMDReadLocked env mid s = (Ok stored, s1)"
    then have "readOnly s s1" by (rule getMDReadLocked_readOnly)
    with getMDReadLocked_logOnly have "fst (getMDReadLocked env mid s1) = fst (getMDReadLocked env mid s)"
      by (rule logOnly_readOnly)
    with g have "fst (getMDReadLocked env mid s1) = Ok stored" by simp
    with mk show ?thesis
      by (cases "getMDReadLocked env mid s1") (simp add: putMDLocked_def)
  next
    fix t p' enc
    assume g: "getMDReadLocked env mid s = (Err ErrNotExist, t)"
      and p': "mdPath s mid = Some p'"
      and enc: "EncodeRootMetadataSigned env rmds = Inr enc"
      and s1: "s1 = t\<lparr>accesses := accesses t @ [FsWrite p'],
                     files := (files t)(p' \<mapsto> RMDSFile \<lparr>EncodedRMDS = enc, Timestamp = clockNow s,
                                   Version = MDVersion (MD rmds)\<rparr>)\<rparr>"
    from g have ro: "readOnly s t" by (rule getMDReadLocked_readOnly)
    from p p' have pp: "p' = p" by simp
    from roundtrip [OF enc] obtain r' where
      dec: "DecodeRootMetadataSigned env (tlfID s) (MDVersion (MD rmds)) (mdVer s) enc (clockNow s)
              = Inr r'" and mk': "MakeMdID env (MD r') = Inr mid" by blast
    from p s1 ro have p1: "mdPath s1 mid = Some p"
      using mdPath_dir [of s1 s mid] by (simp add: readOnly_fields)
    from s1 ro pp readable dec mk' p1 have "fst (getMDReadLocked env mid s1) = Ok r'"
      by (simp add: getMDReadLocked_def fs_defs readOnly_fields Let_def)
    with mk show ?thesis
      by (cases "getMDReadLocked env mid s1") (simp add: putMDLocked_def)
  qed
qed

text \<open>
  Claim C6. \<open>putMDLocked\<close> is content-addressed and idempotent: the id it returns is
  \<open>MakeMdID\<close> of the object; when an object with that id is already stored (the read of
  that id succeeds) it returns the id after that read alone, writing nothing; two puts of
  the same object in a row return the same id, the second changes nothing but the log of
  reads, and the files differ from those before the first put at most in the one path
  derived from the id, which holds a file afterwards. The second put succeeds whenever the
  file is readable and the codec decodes what it encoded to an object of the same
  content address.
\<close>

theorem putMDLocked_content_addressed:
  "(putMDLocked env rmds s = (Ok mid, s1) \<longrightarrow> MakeMdID env (MD rmds) = Inr mid)
   \<and> (MakeMdID env (MD rmds) = Inr mid \<and> getMDReadLocked env mid s = (Ok stored, s1) \<longrightarrow>
        putMDLocked env rmds s = (Ok mid, s1) \<and> readOnly s s1)
   \<and> (putMDLocked env rmds s = (Ok mid, s1) \<and> putMDLocked env rmds s1 = (Ok mid', s2) \<longrightarrow>
        mid' = mid \<and> readOnly s1 s2
        \<and> (\<exists>p. mdPath s mid = Some p \<and> files s2 p \<noteq> None
               \<and> (\<forall>q. q \<noteq> p \<longrightarrow> files s2 q = files s q)))
   \<and> (putMDLocked env rmds s = (Ok mid, s1) \<and> mdPath s mid = Some p
        \<and> ioFault s (FsRead p) = None
        \<and> (\<forall>enc. EncodeRootMetadataSigned env rmds = Inr enc \<longrightarrow>
             (\<exists>r'. DecodeRootMetadataSigned env (tlfID s) (MDVersion (MD rmds)) (mdVer s) enc
                      (clockNow s) = Inr r' \<and> MakeMdID env (MD r') = Inr mid)) \<longrightarrow>
        fst (putMDLocked env rmds s1) = Ok mid)"
proof (intro conjI impI)
  assume "putMDLocked env rmds s = (Ok mid, s1)"
  then show "MakeMdID env (MD rmds) = Inr mid" by (rule putMDLocked_id)
next
  assume a: "MakeMdID env (MD rmds) = Inr mid \<and> getMDReadLocked env mid s = (Ok stored, s1)"
  then show "putMDLocked env rmds s = (Ok mid, s1)" using putMDLocked_existing by blast
  from a show "readOnly s s1" by (blast intro: getMDReadLocked_readOnly)
next
  assume a: "putMDLocked env rmds s = (Ok mid, s1) \<and> putMDLocked env rmds s1 = (Ok mid', s2)"
  then have a1: "putMDLocked env rmds s = (Ok mid, s1)"
    and a2: "putMDLocked env rmds s1 = (Ok mid', s2)" by simp_all
  from a1 a2 have t: "mid' = mid \<and> readOnly s1 s2" by (rule putMDLocked_twice)
  then show "mid' = mid" by simp
  from t show "readOnly s1 s2" by simp
  from a1 have "\<exists>p. mdPath s mid = Some p \<and> files s1 p \<noteq> None \<and> dir s1 = dir s
           \<and> (\<forall>q. q \<noteq> p \<longrightarrow> files s1 q = files s q)"
    by (rule putMDLocked_Ok_file)
  with t show "\<exists>p. mdPath s mid = Some p \<and> files s2 p \<noteq> None
       \<and> (\<forall>q. q \<noteq> p \<longrightarrow> files s2 q = files s q)"
    by (auto simp add: readOnly_fields)
next
  assume a: "putMDLocked env rmds s = (Ok mid, s1) \<and> mdPath s mid = Some p
        \<and> ioFault s (FsRead p) = None
        \<and> (\<forall>enc. EncodeRootMetadataSigned env rmds = Inr enc \<longrightarrow>
             (\<exists>r'. DecodeRootMetadataSigned env (tlfID s) (MDVersion (MD rmds)) (mdVer s) enc
                      (clockNow s) = Inr r' \<and> MakeMdID env (MD r') = Inr mid))"
  then show "fst (putMDLocked env rmds s1) = Ok mid"
    by (intro putMDLocked_again [where s=s and p=p]) auto
qed


theorem putMDLocked_content_addressed_witness:
  "putMDLocked exampleCollaborators (exampleRMDS ''m1'' 1 NullBranchID Merged) exampleStorage =
     (Ok ''01abm1'',
      exampleStorage
        \<lparr>accesses := [FsRead [''root'', ''mds'', ''01ab'', ''m1''],
                      FsWrite [''root'', ''mds'', ''01ab'', ''m1'']],
         files := [[''root'', ''mds'', ''01ab'', ''m1''] \<mapsto>
                     RMDSFile \<lparr>EncodedRMDS = ''m1'', Timestamp = 7, Version = 1\<rparr>]\<rparr>)
   \<and> MakeMdID exampleCollaborators (MD (exampleRMDS ''m1'' 1 NullBranchID Merged)) = Inr ''01abm1''
   \<and> putMDLocked exampleCollaborators (exampleRMDS ''m1'' 1 NullBranchID Merged) exampleStorage1 =
     (Ok ''01abm1'', exampleStorage1\<lparr>accesses := [FsRead [''root'', ''mds'', ''01ab'', ''m1'']]\<rparr>)
   \<and> readOnly exampleStorage1
         (exampleStorage1\<lparr>accesses := [FsRead [''root'', ''mds'', ''01ab'', ''m1'']]\<rparr>)
   \<and> fst (putMDLocked exampleCollaborators (exampleRMDS ''m1'' 1 NullBranchID Merged)
         (exampleStorage
            \<lparr>accesses := [FsRead [''root'', ''mds'', ''01ab'', ''m1''],
                          FsWrite [''root'', ''mds'', ''01ab'', ''m1'']],
             files := [[''root'', ''mds'', ''01ab'', ''m1''] \<mapsto>
                     RMDSFile \<lparr>EncodedRMDS = ''m1'', Timestamp = 7, Version = 1\<rparr>]\<rparr>)) =
       Ok ''01abm1''"
proof -
  let ?m1 = "exampleRMDS ''m1'' 1 NullBranchID Merged"
  let ?p = "[''root'', ''mds'', ''01ab'', ''m1'']"
  let ?A = "exampleStorage
        \<lparr>accesses := [FsRead ?p, FsWrite ?p],
         files := [?p \<mapsto> RMDSFile \<lparr>EncodedRMDS = ''m1'', Timestamp = 7, Version = 1\<rparr>]\<rparr>"
  let ?B = "exampleStorage1\<lparr>accesses := [FsRead ?p]\<rparr>"
  have h1: "putMDLocked exampleCollaborators ?m1 exampleStorage = (Ok ''01abm1'', ?A)"
    by (simp add: putMDLocked_def getMDReadLocked_def fs_defs path_defs IsNotExist_def Let_def
        exampleCollaborators_simps exampleStorage_simps exampleRMDS_simps)
  have h2: "getMDReadLocked exampleCollaborators ''01abm1'' exampleStorage1 = (Ok ?m1, ?B)"
    by (simp add: getMDReadLocked_def fs_defs path_defs Let_def
        exampleCollaborators_simps exampleStorage1_simps exampleRMDS_simps)
  have h3: "mdPath exampleStorage ''01abm1'' = Some ?p"
    by (simp add: path_defs exampleStorage_simps)
  have h4: "ioFault exampleStorage (FsRead ?p) = None" by (simp add: exampleStorage_simps)
  have h5: "\<forall>enc. EncodeRootMetadataSigned exampleCollaborators ?m1 = Inr enc \<longrightarrow>
      (\<exists>r'. DecodeRootMetadataSigned exampleCollaborators (tlfID exampleStorage)
               (MDVersion (MD ?m1)) (mdVer exampleStorage) enc (clockNow exampleStorage) = Inr r'
             \<and> MakeMdID exampleCollaborators (MD r') = Inr ''01abm1'')"
    by (simp add: exampleCollaborators_simps exampleRMDS_simps)
  note thm1 = putMDLocked_content_addressed [where env=exampleCollaborators and rmds="?m1"
      and s=exampleStorage and ?s1.0="?A" and mid="''01abm1''" and p="?p"]
  note thm2 = putMDLocked_content_addressed [where env=exampleCollaborators and rmds="?m1"
      and s=exampleStorage1 and ?s1.0="?B" and mid="''01abm1''" and stored="?m1"]
  from thm1 h1 have c1: "MakeMdID exampleCollaborators (MD ?m1) = Inr ''01abm1''" by blast
  from thm2 c1 h2 have c2: "putMDLocked exampleCollaborators ?m1 exampleStorage1 = (Ok ''01abm1'', ?B)
      \<and> readOnly exampleStorage1 ?B" by blast
  from thm1 h1 h3 h4 h5 have c3: "fst (putMDLocked exampleCollaborators ?m1 ?A) = Ok ''01abm1''"
    by blast
  from h1 c1 c2 c3 show ?thesis by blast
qed

section \<open>Shutdown\<close>

lemma shutdown_isShutdown: "isShutdownReadLocked (shutdown s)"
  by (simp add: isShutdownReadLocked_def shutdown_def)

lemma after_shutdown_checked_operations:
  "journalLength bid (shutdown s) = (Err errMDServerTlfStorageShutdown, shutdown s)"
  "getForTLF env uid bid (shutdown s) = (Err errMDServerTlfStorageShutdown, shutdown s)"
  "getRange env uid bid start stop (shutdown s) = (Err errMDServerTlfStorageShutdown, shutdown s)"
  "put env uid key rmds extra (shutdown s) = (Err errMDServerTlfStorageShutdown, shutdown s)"
  by (simp_all add: journalLength_def getForTLF_def getRange_def put_def shutdown_isShutdown)

text \<open>
  Claim C1 (every operation invoked after \<open>shutdown\<close> returns the shutdown error and
  performs no filesystem access) fails for \<open>getKeyBundles\<close>, the one public operation
  that does not test \<open>isShutdownReadLocked\<close>: on the storage that has been shut down it
  returns "absent" without error for two empty ids, and for two non-empty ids it reads
  the writer bundle's file and returns the error of that read. The four operations that
  do test it are covered by \<open>after_shutdown_checked_operations\<close>.
\<close>

theorem getKeyBundles_after_shutdown:
  "isShutdownReadLocked (shutdown exampleStorage)
   \<and> fst (getKeyBundles exampleCollaborators [] [] (shutdown exampleStorage)) = Ok (None, None)
   \<and> getKeyBundles exampleCollaborators ''wA'' ''rB'' (shutdown exampleStorage) =
       (Err ErrNotExist,
        (shutdown exampleStorage)\<lparr>accesses := [FsRead [''root'', ''wkbv3'', ''wA'']]\<rparr>)"
  by (simp add: getKeyBundles_def getKeyBundlesReadLocked_def shutdown_def
      isShutdownReadLocked_def fs_defs path_defs exampleStorage_def makeMDServerTlfStorage_def)

section \<open>A storage with a head is open\<close>

lemma getHead_Some_not_shutdown:
  "getHeadForTLFReadLocked env bid s = (Ok (Some h), s1) \<Longrightarrow> \<not> isShutdownReadLocked s"
  by (auto simp add: getHeadForTLFReadLocked_def lookupBranchJournal_def isShutdownReadLocked_def
      split: option.splits)

lemma example_head1:
  "getHeadForTLFReadLocked exampleCollaborators NullBranchID exampleStorage1 =
     (Ok (Some (exampleRMDS ''m1'' 1 NullBranchID Merged)),
      exampleStorage1\<lparr>accesses := [JournalRead [''root'', ''md_branch_journals'', NullBranchID],
                                    FsRead [''root'', ''mds'', ''01ab'', ''m1'']]\<rparr>)"
  by (simp add: getHeadForTLFReadLocked_def getMDReadLocked_def lookupBranchJournal_def
      fs_defs j_defs path_defs exampleCollaborators_simps exampleStorage1_simps
      exampleRMDS_simps Let_def)

section \<open>Error wrapping in the write path\<close>

text \<open>
  Claim C8 (in \<open>put\<close> every leaf-level error of the object store, the key-bundle store
  and the journal is returned wrapped in \<open>MDServerError\<close>, the successor-validation
  failure alone is returned unwrapped) fails for the error of
  \<open>getOrCreateBranchJournalLocked\<close>: when \<^verbatim>\<open>os.MkdirAll\<close> of the branch's journal
  directory fails, \<open>put\<close> returns that error as it is.
\<close>

theorem put_journal_directory_error_unwrapped:
  "fst (put exampleCollaborators ''alice'' ''key'' (exampleRMDS ''m1'' 1 NullBranchID Merged) None
     (exampleStorage\<lparr>ioFault := (\<lambda>a. if a = FsMkdirAll [''root'', ''md_branch_journals'', NullBranchID]
                                        then Some ''permission denied'' else None)\<rparr>)) =
   Err (ErrIO ''permission denied'')"
  by (simp add: op_defs fs_defs j_defs path_defs exampleCollaborators_simps exampleRMDS_simps
      exampleStorage_def Let_def NullBranchID_def)

section \<open>Journal handles\<close>

text \<open>
  Claim C9, as stated (after any first read or write touching a branch, the branch is
  present in the map of branch journals), fails for reads: \<open>getForTLF\<close> and \<open>getRange\<close>
  on a branch without a handle succeed and leave the branch without one.
\<close>

theorem getForTLF_creates_no_journal:
  "fst (getForTLF exampleCollaborators ''alice'' ''b1'' exampleStorage) = Ok None
   \<and> lookupBranchJournal (snd (getForTLF exampleCollaborators ''alice'' ''b1'' exampleStorage)) ''b1''
       = None
   \<and> fst (getRange exampleCollaborators ''alice'' ''b1'' 1 5 exampleStorage) = Ok []
   \<and> lookupBranchJournal (snd (getRange exampleCollaborators ''alice'' ''b1'' 1 5 exampleStorage)) ''b1''
       = None"
  by (simp add: op_defs fs_defs j_defs path_defs exampleCollaborators_simps exampleRMDS_simps
      exampleStorage_def Let_def NullBranchID_def)

section \<open>The write path\<close>

lemma putResolveExtra_readOnly:
  "putResolveExtra env rmds extra s = (r, s') \<Longrightarrow> readOnly s s'"
  unfolding putResolveExtra_def
  by (auto split: option.splits prod.splits result.splits
      dest!: getExtraMetadataReadLocked_readOnly intro: readOnly_refl)

lemma putCheckPermissions_readOnly:
  "putCheckPermissions env uid key rmds extra s = (r, s') \<Longrightarrow> readOnly s s'"
  unfolding putCheckPermissions_def
  by (auto split: option.splits prod.splits result.splits sum.splits if_splits
      dest!: getHeadForTLFReadLocked_readOnly getExtraMetadataReadLocked_readOnly
      intro: readOnly_refl readOnly_trans)

lemma putComparisonHead_readOnly:
  "putComparisonHead env uid rmds s = (r, s') \<Longrightarrow> readOnly s s'"
  unfolding putComparisonHead_def Let_def
  by (auto split: option.splits prod.splits result.splits sum.splits if_splits
      dest!: getHeadForTLFReadLocked_readOnly getRangeReadLocked_readOnly
      intro: readOnly_refl readOnly_trans)

lemma readOnly_isShutdown:
  "readOnly s s' \<Longrightarrow> isShutdownReadLocked s' = isShutdownReadLocked s"
  by (simp add: isShutdownReadLocked_def readOnly_fields)

lemma readOnly_lookupBranchJournal:
  "readOnly s s' \<Longrightarrow> lookupBranchJournal s' bid = lookupBranchJournal s bid"
  by (simp add: lookupBranchJournal_def readOnly_fields)

lemma lookup_Some_not_shutdown:
  "lookupBranchJournal s bid = Some j \<Longrightarrow> \<not> isShutdownReadLocked s"
  by (auto simp add: lookupBranchJournal_def isShutdownReadLocked_def split: option.splits)


lemma getRangeReadLocked_nonempty_journal:
  assumes "getRangeReadLocked env uid bid a b s = (Ok rmdses, s')" and "rmdses \<noteq> []"
  shows "lookupBranchJournal s bid \<noteq> None"
proof -
  obtain r1 s1 where c: "checkGetParamsReadLocked env uid bid s = (r1, s1)"
    by (cases "checkGetParamsReadLocked env uid bid s")
  then have ro: "readOnly s s1" by (rule checkGetParamsReadLocked_readOnly)
  from assms c have "lookupBranchJournal s1 bid \<noteq> None"
    by (auto simp add: getRangeReadLocked_def split: result.splits option.splits)
  with ro show ?thesis by (simp add: readOnly_lookupBranchJournal)
qed

lemma putComparisonHead_Some_not_shutdown:
  assumes "putComparisonHead env uid rmds s = (Ok (Some h, rb), s')"
  shows "\<not> isShutdownReadLocked s"
proof -
  obtain r1 s1 where g: "getHeadForTLFReadLocked env (BID (MD rmds)) s = (r1, s1)"
    by (cases "getHeadForTLFReadLocked env (BID (MD rmds)) s")
  then have ro: "readOnly s s1" by (rule getHeadForTLFReadLocked_readOnly)
  show ?thesis
  proof (cases "\<exists>h0. r1 = Ok (Some h0)")
    case True
    with g show ?thesis by (auto dest: getHead_Some_not_shutdown)
  next
    case False
    with assms g obtain rmdses s2 where
      rng: "getRangeReadLocked env uid NullBranchID (RevisionNumber (MD rmds) - 1)
              (RevisionNumber (MD rmds) - 1) s1 = (Ok rmdses, s2)" and len: "length rmdses = 1"
      by (auto simp add: putComparisonHead_def Let_def
          split: result.splits option.splits if_splits prod.splits)
    from len have "rmdses \<noteq> []" by auto
    with rng have "lookupBranchJournal s1 NullBranchID \<noteq> None"
      by (rule getRangeReadLocked_nonempty_journal)
    with ro have "lookupBranchJournal s NullBranchID \<noteq> None"
      by (simp add: readOnly_lookupBranchJournal)
    then show ?thesis by (auto dest: lookup_Some_not_shutdown)
  qed
qed

text \<open>
  Claim C2. For every call to \<open>put\<close> that passes the resolution of the key bundles and
  the permission checks, resolves a comparison head, and whose metadata fails
  \<open>CheckValidSuccessorForServer\<close> against that head: the call returns the successor error
  and leaves the files of the object store and of the key-bundle store, every branch
  journal and the map of journal handles exactly as they were (only reads were logged).
\<close>

theorem put_rejects_invalid_successor:
  "putResolveExtra env rmds extra s = (Ok extra', s1)
   \<and> putCheckPermissions env currentUID currentVerifyingKey rmds extra' s1 = (Ok (), s2)
   \<and> putComparisonHead env currentUID rmds s2 = (Ok (Some head, recordBranchID), s3)
   \<and> MakeMdID env (MD head) = Inr headID
   \<and> CheckValidSuccessorForServer env (MD head) headID (MD rmds) = Some msg \<longrightarrow>
     put env currentUID currentVerifyingKey rmds extra s = (Err (ErrInvalidSuccessor msg), s3)
     \<and> files s3 = files s \<and> journals s3 = journals s \<and> branchJournals s3 = branchJournals s
     \<and> readOnly s s3"
proof (intro impI)
  assume a: "putResolveExtra env rmds extra s = (Ok extra', s1)
   \<and> putCheckPermissions env currentUID currentVerifyingKey rmds extra' s1 = (Ok (), s2)
   \<and> putComparisonHead env currentUID rmds s2 = (Ok (Some head, recordBranchID), s3)
   \<and> MakeMdID env (MD head) = Inr headID
   \<and> CheckValidSuccessorForServer env (MD head) headID (MD rmds) = Some msg"
  then have r1: "readOnly s s1" and r2: "readOnly s1 s2" and r3: "readOnly s2 s3"
    by (blast intro: putResolveExtra_readOnly putCheckPermissions_readOnly
        putComparisonHead_readOnly)+
  from r1 r2 have r12: "readOnly s s2" by (rule readOnly_trans)
  from r12 r3 have ro: "readOnly s s3" by (rule readOnly_trans)
  from a have "\<not> isShutdownReadLocked s2" by (blast dest: putComparisonHead_Some_not_shutdown)
  with r12 have isOpen: "\<not> isShutdownReadLocked s" by (simp add: readOnly_isShutdown)
  from a have chk: "putCheckSuccessor env (Some head) rmds = Err (ErrInvalidSuccessor msg)"
    by (simp add: putCheckSuccessor_def)
  from a isOpen chk have "put env currentUID currentVerifyingKey rmds extra s =
      (Err (ErrInvalidSuccessor msg), s3)"
    by (simp add: put_def)
  with ro show "put env currentUID currentVerifyingKey rmds extra s = (Err (ErrInvalidSuccessor msg), s3)
     \<and> files s3 = files s \<and> journals s3 = journals s \<and> branchJournals s3 = branchJournals s
     \<and> readOnly s s3"
    by (simp add: readOnly_fields)
qed

lemma example_putResolveExtra_none:
  "putResolveExtra exampleCollaborators (exampleRMDS tag r b m) None s = (Ok None, s)"
  by (simp add: putResolveExtra_def getExtraMetadataReadLocked_def getKeyBundlesReadLocked_def
      exampleRMDS_simps)

lemma example_getExtra_none:
  "getExtraMetadataReadLocked exampleCollaborators [] [] s = (Ok None, s)"
  by (simp add: getExtraMetadataReadLocked_def getKeyBundlesReadLocked_def)

lemma example_head1_log:
  "getHeadForTLFReadLocked exampleCollaborators NullBranchID (exampleStorage1\<lparr>accesses := l\<rparr>) =
     (Ok (Some (exampleRMDS ''m1'' 1 NullBranchID Merged)),
      exampleStorage1\<lparr>accesses := l @ [JournalRead [''root'', ''md_branch_journals'', NullBranchID],
                                    FsRead [''root'', ''mds'', ''01ab'', ''m1'']]\<rparr>)"
  by (simp add: getHeadForTLFReadLocked_def getMDReadLocked_def lookupBranchJournal_def
      fs_defs j_defs path_defs exampleCollaborators_simps exampleStorage1_simps
      exampleRMDS_simps Let_def)

theorem put_rejects_invalid_successor_witness:
  "put exampleCollaborators ''alice'' ''key'' (exampleRMDS ''m3'' 3 NullBranchID Merged) None
     exampleStorage1 =
   (Err (ErrInvalidSuccessor ''revision is not the successor''),
    exampleStorage1\<lparr>accesses := [JournalRead [''root'', ''md_branch_journals'', NullBranchID],
                                  FsRead [''root'', ''mds'', ''01ab'', ''m1''],
                                  JournalRead [''root'', ''md_branch_journals'', NullBranchID],
                                  FsRead [''root'', ''mds'', ''01ab'', ''m1'']]\<rparr>)
   \<and> files (exampleStorage1\<lparr>accesses := [JournalRead [''root'', ''md_branch_journals'', NullBranchID],
                                  FsRead [''root'', ''mds'', ''01ab'', ''m1''],
                                  JournalRead [''root'', ''md_branch_journals'', NullBranchID],
                                  FsRead [''root'', ''mds'', ''01ab'', ''m1'']]\<rparr>) = files exampleStorage1"
proof -
  let ?jr = "JournalRead [''root'', ''md_branch_journals'', NullBranchID]"
  let ?fr = "FsRead [''root'', ''mds'', ''01ab'', ''m1'']"
  let ?m1 = "exampleRMDS ''m1'' 1 NullBranchID Merged"
  let ?m3 = "exampleRMDS ''m3'' 3 NullBranchID Merged"
  let ?s2 = "exampleStorage1\<lparr>accesses := [?jr, ?fr]\<rparr>"
  let ?s3 = "exampleStorage1\<lparr>accesses := [?jr, ?fr, ?jr, ?fr]\<rparr>"
  have h1: "putResolveExtra exampleCollaborators ?m3 None exampleStorage1 = (Ok None, exampleStorage1)"
    by (rule example_putResolveExtra_none)
  have h2: "putCheckPermissions exampleCollaborators ''alice'' ''key'' ?m3 None exampleStorage1 =
      (Ok (), ?s2)"
    using example_head1
    by (simp add: putCheckPermissions_def exampleCollaborators_simps exampleRMDS_simps
        example_getExtra_none exampleStorage1_simps)
  have h3: "putComparisonHead exampleCollaborators ''alice'' ?m3 ?s2 = (Ok (Some ?m1, False), ?s3)"
    using example_head1_log [of "[?jr, ?fr]"]
    by (simp add: putComparisonHead_def exampleRMDS_simps Let_def)
  have h4: "MakeMdID exampleCollaborators (MD ?m1) = Inr ''01abm1''"
    by (simp add: exampleCollaborators_simps exampleRMDS_simps)
  have h5: "CheckValidSuccessorForServer exampleCollaborators (MD ?m1) ''01abm1'' (MD ?m3) =
      Some ''revision is not the successor''"
    by (simp add: exampleCollaborators_simps exampleRMDS_simps)
  from put_rejects_invalid_successor [where env=exampleCollaborators and rmds="?m3" and extra=None
      and s=exampleStorage1 and extra'=None and ?s1.0=exampleStorage1 and currentUID="''alice''"
      and currentVerifyingKey="''key''" and ?s2.0="?s2" and head="?m1" and recordBranchID=False
      and ?s3.0="?s3" and headID="''01abm1''" and msg="''revision is not the successor''"]
    h1 h2 h3 h4 h5
  show ?thesis by blast
qed

lemma putMDLocked_keeps:
  assumes "putMDLocked env rmds s = (r, s')"
  shows "branchJournals s' = branchJournals s \<and> journals s' = journals s \<and> dir s' = dir s
         \<and> ioFault s' = ioFault s"
proof -
  show ?thesis
  proof (cases "MakeMdID env (MD rmds)")
    case (Inl msg)
    with assms show ?thesis by (simp add: putMDLocked_def)
  next
    case (Inr mid)
    obtain r1 s1 where g: "getMDReadLocked env mid s = (r1, s1)"
      by (cases "getMDReadLocked env mid s")
    then have ro: "readOnly s s1" by (rule getMDReadLocked_readOnly)
    from assms Inr g have "s' = s1 \<or> (\<exists>c p. s' = s1\<lparr>accesses := accesses s1 @ [FsWrite p]\<rparr>
        \<or> s' = s1\<lparr>accesses := accesses s1 @ [FsWrite p], files := (files s1)(p \<mapsto> c)\<rparr>)"
      by (auto simp add: putMDLocked_def Let_def SerializeToFile_def logAccess_def
          split: result.splits if_splits sum.splits option.splits prod.splits)
    with ro show ?thesis by (auto simp add: readOnly_fields)
  qed
qed

lemma putExtraMetadataLocked_keeps:
  assumes "putExtraMetadataLocked env rmds extra s = (r, s')"
  shows "branchJournals s' = branchJournals s \<and> journals s' = journals s \<and> dir s' = dir s
         \<and> ioFault s' = ioFault s"
  using assms
  by (auto simp add: putExtraMetadataLocked_def Let_def SerializeToFile_def logAccess_def
      split: option.splits if_splits ExtraMetadata.splits prod.splits result.splits)

lemma getOrCreateBranchJournalLocked_Ok:
  assumes "getOrCreateBranchJournalLocked bid s = (Ok j, s')"
  shows "lookupBranchJournal s' bid = Some j
         \<and> j = (case lookupBranchJournal s bid of
                  Some j0 \<Rightarrow> j0
                | None \<Rightarrow> makeMdIDJournal (Join (branchJournalsPath s) [bid]))
         \<and> files s' = files s \<and> dir s' = dir s"
  using assms
  by (auto simp add: getOrCreateBranchJournalLocked_def lookupBranchJournal_def Let_def
      MkdirAll_def logAccess_def
      split: option.splits prod.splits result.splits)

lemma mdIDJournal_append_keeps:
  assumes "mdIDJournal_append j r e s = (res, s')"
  shows "branchJournals s' = branchJournals s \<and> files s' = files s \<and> dir s' = dir s"
  using assms
  by (auto simp add: mdIDJournal_append_def logAccess_def Let_def split: option.splits if_splits)

lemma putPersist_Ok:
  assumes "putPersist env rmds extra rb s = (Ok x, s')"
  shows "x = rb
     \<and> lookupBranchJournal s' (BID (MD rmds)) =
         Some (case lookupBranchJournal s (BID (MD rmds)) of
                 Some j0 \<Rightarrow> j0
               | None \<Rightarrow> makeMdIDJournal (Join (branchJournalsPath s) [BID (MD rmds)]))"
proof -
  from assms obtain mid s1 u s2 j s3 v where
    a: "putMDLocked env rmds s = (Ok mid, s1)"
    and b: "putExtraMetadataLocked env rmds extra s1 = (Ok u, s2)"
    and c: "getOrCreateBranchJournalLocked (BID (MD rmds)) s2 = (Ok j, s3)"
    and d: "mdIDJournal_append j (RevisionNumber (MD rmds)) \<lparr>ID = mid\<rparr> s3 = (Ok v, s')"
    and x: "x = rb"
    by (auto simp add: putPersist_def split: prod.splits result.splits)
  from putMDLocked_keeps [OF a] putExtraMetadataLocked_keeps [OF b]
  have same: "branchJournals s2 = branchJournals s" "dir s2 = dir s" by simp_all
  then have l2: "lookupBranchJournal s2 (BID (MD rmds)) = lookupBranchJournal s (BID (MD rmds))"
    and p2: "branchJournalsPath s2 = branchJournalsPath s"
    by (simp_all add: lookupBranchJournal_def branchJournalsPath_def)
  from getOrCreateBranchJournalLocked_Ok [OF c] l2 p2
  have l3: "lookupBranchJournal s3 (BID (MD rmds)) =
      Some (case lookupBranchJournal s (BID (MD rmds)) of
                 Some j0 \<Rightarrow> j0
               | None \<Rightarrow> makeMdIDJournal (Join (branchJournalsPath s) [BID (MD rmds)]))"
    by (simp split: option.splits)
  from mdIDJournal_append_keeps [OF d]
  have "lookupBranchJournal s' (BID (MD rmds)) = lookupBranchJournal s3 (BID (MD rmds))"
    by (simp add: lookupBranchJournal_def)
  with l3 x show ?thesis by simp
qed

text \<open>A successful \<open>put\<close> went through all its blocks.\<close>

lemma put_Ok_blocks:
  assumes "put env uid key rmds extra s = (Ok rb, s')"
  obtains extra' s1 s2 head rb0 s3 where
    "\<not> isShutdownReadLocked s"
    "putResolveExtra env rmds extra s = (Ok extra', s1)"
    "putCheckPermissions env uid key rmds extra' s1 = (Ok (), s2)"
    "putComparisonHead env uid rmds s2 = (Ok (head, rb0), s3)"
    "putCheckSuccessor env head rmds = Ok ()"
    "putPersist env rmds extra' rb0 s3 = (Ok rb, s')"
  using assms
  by (auto simp add: put_def split: if_splits prod.splits result.splits)

lemma put_Ok_readOnly_prefix:
  assumes "putResolveExtra env rmds extra s = (Ok extra', s1)"
    "putCheckPermissions env uid key rmds extra' s1 = (Ok (), s2)"
    "putComparisonHead env uid rmds s2 = (Ok (head, rb0), s3)"
  shows "readOnly s s2" "readOnly s s3"
proof -
  from assms have r1: "readOnly s s1" and r2: "readOnly s1 s2" and r3: "readOnly s2 s3"
    by (blast intro: putResolveExtra_readOnly putCheckPermissions_readOnly
        putComparisonHead_readOnly)+
  from r1 r2 show "readOnly s s2" by (rule readOnly_trans)
  from this r3 show "readOnly s s3" by (rule readOnly_trans)
qed

text \<open>
  Claim C9, amended. The in-memory journal handle of a branch is created lazily by the
  first successful \<open>put\<close> to that branch: the read operations \<open>journalLength\<close>,
  \<open>getForTLF\<close> and \<open>getRange\<close> leave the map of branch journals as it is, and after
  every successful \<open>put\<close> the branch of the metadata is present in the map, with the
  handle it had before or, when it had none, a new handle on the branch's directory
  under \<^verbatim>\<open>md_branch_journals\<close>.
\<close>

theorem journal_handle_created_by_put:
  "(journalLength bid s = (r1, s1) \<longrightarrow> branchJournals s1 = branchJournals s)
   \<and> (getForTLF env currentUID bid s = (r2, s2) \<longrightarrow> branchJournals s2 = branchJournals s)
   \<and> (getRange env currentUID bid start stop s = (r3, s3) \<longrightarrow> branchJournals s3 = branchJournals s)
   \<and> (put env currentUID currentVerifyingKey rmds extra s = (Ok recordBranchID, s4) \<longrightarrow>
        lookupBranchJournal s4 (BID (MD rmds)) =
          Some (case lookupBranchJournal s (BID (MD rmds)) of
                  Some j \<Rightarrow> j
                | None \<Rightarrow> makeMdIDJournal (Join (branchJournalsPath s) [BID (MD rmds)])))"
proof (intro conjI impI)
  assume "journalLength bid s = (r1, s1)"
  then have "readOnly s s1"
    by (auto simp add: journalLength_def split: if_splits option.splits
        intro: readOnly_refl mdIDJournal_length_readOnly)
  then show "branchJournals s1 = branchJournals s" by (simp add: readOnly_fields)
next
  assume "getForTLF env currentUID bid s = (r2, s2)"
  then have "readOnly s s2"
    by (auto simp add: getForTLF_def split: if_splits prod.splits result.splits
        dest!: checkGetParamsReadLocked_readOnly getHeadForTLFReadLocked_readOnly
        intro: readOnly_refl readOnly_trans)
  then show "branchJournals s2 = branchJournals s" by (simp add: readOnly_fields)
next
  assume "getRange env currentUID bid start stop s = (r3, s3)"
  then have "readOnly s s3"
    by (auto simp add: getRange_def split: if_splits
        intro: readOnly_refl getRangeReadLocked_readOnly)
  then show "branchJournals s3 = branchJournals s" by (simp add: readOnly_fields)
next
  assume a: "put env currentUID currentVerifyingKey rmds extra s = (Ok recordBranchID, s4)"
  from a obtain extra' t1 t2 head rb0 t3 where
    b: "putResolveExtra env rmds extra s = (Ok extra', t1)"
    "putCheckPermissions env currentUID currentVerifyingKey rmds extra' t1 = (Ok (), t2)"
    "putComparisonHead env currentUID rmds t2 = (Ok (head, rb0), t3)"
    and p: "putPersist env rmds extra' rb0 t3 = (Ok recordBranchID, s4)"
    by (rule put_Ok_blocks)
  from b have ro: "readOnly s t3" by (rule put_Ok_readOnly_prefix)
  then have "lookupBranchJournal t3 (BID (MD rmds)) = lookupBranchJournal s (BID (MD rmds))"
    and "branchJournalsPath t3 = branchJournalsPath s"
    by (simp_all add: readOnly_lookupBranchJournal branchJournalsPath_def readOnly_fields)
  with putPersist_Ok [OF p]
  show "lookupBranchJournal s4 (BID (MD rmds)) =
          Some (case lookupBranchJournal s (BID (MD rmds)) of
                  Some j \<Rightarrow> j
                | None \<Rightarrow> makeMdIDJournal (Join (branchJournalsPath s) [BID (MD rmds)]))"
    by (simp split: option.splits)
qed

theorem journal_handle_created_by_put_witness:
  "branchJournals (snd (journalLength ''b1'' exampleStorage)) = branchJournals exampleStorage
   \<and> branchJournals (snd (getForTLF exampleCollaborators ''alice'' ''b1'' exampleStorage)) =
       branchJournals exampleStorage
   \<and> branchJournals (snd (getRange exampleCollaborators ''alice'' ''b1'' 1 5 exampleStorage)) =
       branchJournals exampleStorage
   \<and> lookupBranchJournal exampleStorage NullBranchID = None
   \<and> lookupBranchJournal
        (snd (put exampleCollaborators ''alice'' ''key'' (exampleRMDS ''m1'' 1 NullBranchID Merged)
                None exampleStorage)) NullBranchID =
       Some \<lparr>jdir = [''root'', ''md_branch_journals'', NullBranchID]\<rparr>"
proof -
  let ?m1 = "exampleRMDS ''m1'' 1 NullBranchID Merged"
  have none: "lookupBranchJournal exampleStorage NullBranchID = None"
    by (simp add: lookupBranchJournal_def exampleStorage_simps)
  note inst = journal_handle_created_by_put [where env=exampleCollaborators and s=exampleStorage
      and bid="''b1''" and currentUID="''alice''" and start=1 and stop=5
      and ?r1.0="fst (journalLength ''b1'' exampleStorage)"
      and ?s1.0="snd (journalLength ''b1'' exampleStorage)"
      and ?r2.0="fst (getForTLF exampleCollaborators ''alice'' ''b1'' exampleStorage)"
      and ?s2.0="snd (getForTLF exampleCollaborators ''alice'' ''b1'' exampleStorage)"
      and ?r3.0="fst (getRange exampleCollaborators ''alice'' ''b1'' 1 5 exampleStorage)"
      and ?s3.0="snd (getRange exampleCollaborators ''alice'' ''b1'' 1 5 exampleStorage)"
      and currentVerifyingKey="''key''" and rmds="?m1" and extra=None and recordBranchID=False
      and ?s4.0="snd (put exampleCollaborators ''alice'' ''key'' ?m1 None exampleStorage)"]
  have p: "put exampleCollaborators ''alice'' ''key'' ?m1 None exampleStorage =
      (Ok False, snd (put exampleCollaborators ''alice'' ''key'' ?m1 None exampleStorage))"
    by (simp add: put_first_revision)
  have b: "BID (MD ?m1) = NullBranchID" by (simp add: exampleRMDS_simps)
  have d: "makeMdIDJournal (Join (branchJournalsPath exampleStorage) [NullBranchID]) =
      \<lparr>jdir = [''root'', ''md_branch_journals'', NullBranchID]\<rparr>"
    by (simp add: makeMdIDJournal_def path_defs exampleStorage_simps NullBranchID_def)
  from inst p none b d show ?thesis by simp
qed

section \<open>A put without key bundles\<close>

lemma writesOnlyUnder_refl: "writesOnlyUnder d s s"
  by (simp add: writesOnlyUnder_def)

lemma writesOnlyUnder_trans:
  "writesOnlyUnder d s s1 \<Longrightarrow> writesOnlyUnder d s1 s2 \<Longrightarrow> writesOnlyUnder d s s2"
  by (simp add: writesOnlyUnder_def)

lemma reads_hold_no_write: "list_all isReadAccess ext \<Longrightarrow> FsWrite q \<notin> set ext"
  by (induction ext) (auto simp add: isReadAccess_def)

lemma readOnly_writesOnlyUnder: "readOnly s s' \<Longrightarrow> writesOnlyUnder d s s'"
  unfolding readOnly_def writesOnlyUnder_def
  by (auto dest: reads_hold_no_write)

lemma mdPath_isUnder: "mdPath s mid = Some p \<Longrightarrow> isUnder (mdsPath s) p"
  by (auto simp add: mdPath_def Join_def isUnder_def Let_def split: if_splits)

lemma isUnder_sibling: "isUnder (d @ [a]) q \<Longrightarrow> isUnder (d @ [b]) q \<Longrightarrow> a = b"
  by (simp add: isUnder_def)

lemma putMDLocked_writesOnlyUnder:
  assumes "putMDLocked env rmds s = (r, s')"
  shows "writesOnlyUnder (mdsPath s) s s'"
proof (cases "MakeMdID env (MD rmds)")
  case (Inl msg)
  with assms show ?thesis by (simp add: putMDLocked_def writesOnlyUnder_refl)
next
  case (Inr mid)
  obtain r1 s1 where g: "getMDReadLocked env mid s = (r1, s1)"
    by (cases "getMDReadLocked env mid s")
  then have ro: "readOnly s s1" by (rule getMDReadLocked_readOnly)
  then have w1: "writesOnlyUnder (mdsPath s) s s1" by (rule readOnly_writesOnlyUnder)
  from ro have m: "mdsPath s1 = mdsPath s" by (simp add: mdsPath_def readOnly_fields)
  from assms Inr g have "s' = s1 \<or> (\<exists>c p. mdPath s1 mid = Some p \<and>
        (s' = s1\<lparr>accesses := accesses s1 @ [FsWrite p]\<rparr>
        \<or> s' = s1\<lparr>accesses := accesses s1 @ [FsWrite p], files := (files s1)(p \<mapsto> c)\<rparr>))"
    by (auto simp add: putMDLocked_def Let_def SerializeToFile_def logAccess_def
        split: result.splits if_splits sum.splits option.splits prod.splits)
  then have "writesOnlyUnder (mdsPath s1) s1 s'"
    by (auto simp add: writesOnlyUnder_def dest: mdPath_isUnder)
  with m w1 show ?thesis by (auto intro: writesOnlyUnder_trans)
qed

lemma getOrCreateBranchJournalLocked_writesOnlyUnder:
  "getOrCreateBranchJournalLocked bid s = (r, s') \<Longrightarrow> writesOnlyUnder d s s'"
  by (auto simp add: getOrCreateBranchJournalLocked_def lookupBranchJournal_def Let_def
      MkdirAll_def logAccess_def writesOnlyUnder_def
      split: option.splits prod.splits result.splits)

lemma mdIDJournal_append_writesOnlyUnder:
  "mdIDJournal_append j rv e s = (r, s') \<Longrightarrow> writesOnlyUnder d s s'"
  by (auto simp add: mdIDJournal_append_def logAccess_def Let_def writesOnlyUnder_def
      split: option.splits if_splits)

lemma putPersist_absent_writesOnlyUnder:
  assumes "putPersist env rmds None rb s = (r, s')"
  shows "writesOnlyUnder (mdsPath s) s s'"
proof -
  obtain r1 s1 where a: "putMDLocked env rmds s = (r1, s1)" by (cases "putMDLocked env rmds s")
  then have w1: "writesOnlyUnder (mdsPath s) s s1" by (rule putMDLocked_writesOnlyUnder)
  obtain r2 s2 where c: "getOrCreateBranchJournalLocked (BID (MD rmds)) s1 = (r2, s2)"
    by (cases "getOrCreateBranchJournalLocked (BID (MD rmds)) s1")
  then have w2: "writesOnlyUnder (mdsPath s) s1 s2"
    by (rule getOrCreateBranchJournalLocked_writesOnlyUnder)
  from w1 w2 have w12: "writesOnlyUnder (mdsPath s) s s2" by (rule writesOnlyUnder_trans)
  from assms a c have "s' = s1 \<or> s' = s2 \<or>
      (\<exists>j mid r3. mdIDJournal_append j (RevisionNumber (MD rmds)) \<lparr>ID = mid\<rparr> s2 = (r3, s'))"
    by (auto simp add: putPersist_def putExtraMetadataLocked_def
        split: prod.splits result.splits)
  with w1 w12 show ?thesis
    by (auto intro: writesOnlyUnder_trans mdIDJournal_append_writesOnlyUnder)
qed

lemma putResolveExtra_absent:
  "GetTLFWriterKeyBundleID (MD rmds) = [] \<Longrightarrow> GetTLFReaderKeyBundleID (MD rmds) = [] \<Longrightarrow>
   putResolveExtra env rmds None s = (Ok None, s)"
  by (simp add: putResolveExtra_def getExtraMetadataReadLocked_def getKeyBundlesReadLocked_def)

lemma put_absent_writesOnlyUnder:
  assumes w: "GetTLFWriterKeyBundleID (MD rmds) = []" and r: "GetTLFReaderKeyBundleID (MD rmds) = []"
    and p: "put env uid key rmds None s = (res, s')"
  shows "writesOnlyUnder (mdsPath s) s s'"
proof (cases "isShutdownReadLocked s")
  case True
  with p show ?thesis by (simp add: put_def writesOnlyUnder_refl)
next
  case False
  note x = putResolveExtra_absent [OF w r, of env s]
  obtain r2 s2 where c: "putCheckPermissions env uid key rmds None s = (r2, s2)"
    by (cases "putCheckPermissions env uid key rmds None s")
  then have ro2: "readOnly s s2" by (rule putCheckPermissions_readOnly)
  obtain r3 s3 where h: "putComparisonHead env uid rmds s2 = (r3, s3)"
    by (cases "putComparisonHead env uid rmds s2")
  then have "readOnly s2 s3" by (rule putComparisonHead_readOnly)
  with ro2 have ro3: "readOnly s s3" by (rule readOnly_trans)
  then have m: "mdsPath s3 = mdsPath s" by (simp add: mdsPath_def readOnly_fields)
  from p False x c h have "s' = s2 \<or> s' = s3 \<or> (\<exists>rb. putPersist env rmds None rb s3 = (res, s'))"
    by (auto simp add: put_def split: prod.splits result.splits)
  then show ?thesis
  proof (elim disjE exE)
    assume "s' = s2"
    with ro2 show ?thesis by (simp add: readOnly_writesOnlyUnder)
  next
    assume "s' = s3"
    with ro3 show ?thesis by (simp add: readOnly_writesOnlyUnder)
  next
    fix rb
    assume "putPersist env rmds None rb s3 = (res, s')"
    then have "writesOnlyUnder (mdsPath s3) s3 s'" by (rule putPersist_absent_writesOnlyUnder)
    with m have "writesOnlyUnder (mdsPath s) s3 s'" by simp
    with ro3 show ?thesis by (blast intro: writesOnlyUnder_trans readOnly_writesOnlyUnder)
  qed
qed

text \<open>
  Claim C10. For every \<open>put\<close> whose metadata references no bundles and to which none was
  supplied, the resolved pair is absent and the bundle-persistence step
  \<open>putExtraMetadataLocked\<close> is a no-op that returns no error and leaves the state as it
  is; whatever the outcome of the call, no file under the writer or reader bundle
  directories (\<^verbatim>\<open>wkbv3\<close>, \<^verbatim>\<open>rkbv3\<close>) is changed and no write of such a file is
  logged. Such a call can succeed: the put of the first revision into the empty example
  storage does.
\<close>

theorem put_absent_key_bundles:
  "(GetTLFWriterKeyBundleID (MD rmds) = [] \<and> GetTLFReaderKeyBundleID (MD rmds) = [] \<longrightarrow>
      putResolveExtra env rmds None s = (Ok None, s)
      \<and> putExtraMetadataLocked env rmds None s = (Ok (), s)
      \<and> (put env currentUID currentVerifyingKey rmds None s = (res, s') \<longrightarrow>
           (\<forall>p. isUnder (Join (dir s) [''wkbv3'']) p \<or> isUnder (Join (dir s) [''rkbv3'']) p \<longrightarrow>
                files s' p = files s p
                \<and> (FsWrite p \<in> set (accesses s') \<longrightarrow> FsWrite p \<in> set (accesses s)))))
   \<and> (\<exists>t. put exampleCollaborators ''alice'' ''key'' (exampleRMDS ''m1'' 1 NullBranchID Merged) None
             exampleStorage = (Ok False, t))"
proof (intro conjI impI allI)
  assume a: "GetTLFWriterKeyBundleID (MD rmds) = [] \<and> GetTLFReaderKeyBundleID (MD rmds) = []"
  then show "putResolveExtra env rmds None s = (Ok None, s)"
    by (simp add: putResolveExtra_absent)
  show "putExtraMetadataLocked env rmds None s = (Ok (), s)"
    by (simp add: putExtraMetadataLocked_def)
  fix p
  assume b: "put env currentUID currentVerifyingKey rmds None s = (res, s')"
    and u: "isUnder (Join (dir s) [''wkbv3'']) p \<or> isUnder (Join (dir s) [''rkbv3'']) p"
  from a b have w: "writesOnlyUnder (mdsPath s) s s'"
    by (blast intro: put_absent_writesOnlyUnder)
  from u have "\<not> isUnder (mdsPath s) p"
    by (auto simp add: mdsPath_def Join_def dest: isUnder_sibling)
  with w show "files s' p = files s p"
    and "FsWrite p \<in> set (accesses s') \<Longrightarrow> FsWrite p \<in> set (accesses s)"
    by (simp_all add: writesOnlyUnder_def)
next
  show "\<exists>t. put exampleCollaborators ''alice'' ''key'' (exampleRMDS ''m1'' 1 NullBranchID Merged) None
             exampleStorage = (Ok False, t)"
    using put_first_revision by blast
qed

theorem put_absent_key_bundles_witness:
  "putResolveExtra exampleCollaborators (exampleRMDS ''m1'' 1 NullBranchID Merged) None exampleStorage
     = (Ok None, exampleStorage)
   \<and> putExtraMetadataLocked exampleCollaborators (exampleRMDS ''m1'' 1 NullBranchID Merged) None
       exampleStorage = (Ok (), exampleStorage)
   \<and> fst (put exampleCollaborators ''alice'' ''key'' (exampleRMDS ''m1'' 1 NullBranchID Merged) None
            exampleStorage) = Ok False
   \<and> files (snd (put exampleCollaborators ''alice'' ''key''
                   (exampleRMDS ''m1'' 1 NullBranchID Merged) None exampleStorage))
         [''root'', ''wkbv3'', ''wA''] = None
   \<and> FsWrite [''root'', ''rkbv3'', ''rB''] \<notin>
       set (accesses (snd (put exampleCollaborators ''alice'' ''key''
                   (exampleRMDS ''m1'' 1 NullBranchID Merged) None exampleStorage)))"
proof -
  let ?m1 = "exampleRMDS ''m1'' 1 NullBranchID Merged"
  let ?t = "snd (put exampleCollaborators ''alice'' ''key'' ?m1 None exampleStorage)"
  have ids: "GetTLFWriterKeyBundleID (MD ?m1) = [] \<and> GetTLFReaderKeyBundleID (MD ?m1) = []"
    by (simp add: exampleRMDS_simps)
  have p: "put exampleCollaborators ''alice'' ''key'' ?m1 None exampleStorage = (Ok False, ?t)"
    by (simp add: put_first_revision)
  have u1: "isUnder (Join (dir exampleStorage) [''wkbv3'']) [''root'', ''wkbv3'', ''wA'']"
    and u2: "isUnder (Join (dir exampleStorage) [''rkbv3'']) [''root'', ''rkbv3'', ''rB'']"
    by (simp_all add: isUnder_def Join_def exampleStorage_simps)
  note inst = put_absent_key_bundles [where rmds="?m1" and env=exampleCollaborators
      and s=exampleStorage and currentUID="''alice''" and currentVerifyingKey="''key''"
      and res="Ok False" and s'="?t"]
  from inst ids have a: "putResolveExtra exampleCollaborators ?m1 None exampleStorage
        = (Ok None, exampleStorage)
      \<and> putExtraMetadataLocked exampleCollaborators ?m1 None exampleStorage
        = (Ok (), exampleStorage)" by blast
  from inst ids p u1 have "files ?t [''root'', ''wkbv3'', ''wA''] =
      files exampleStorage [''root'', ''wkbv3'', ''wA'']" by blast
  then have b: "files ?t [''root'', ''wkbv3'', ''wA''] = None" by (simp add: exampleStorage_simps)
  from inst ids p u2 have "FsWrite [''root'', ''rkbv3'', ''rB''] \<in> set (accesses ?t) \<longrightarrow>
      FsWrite [''root'', ''rkbv3'', ''rB''] \<in> set (accesses exampleStorage)" by blast
  then have c: "FsWrite [''root'', ''rkbv3'', ''rB''] \<notin> set (accesses ?t)"
    by (simp add: exampleStorage_simps)
  have d: "fst (put exampleCollaborators ''alice'' ''key'' ?m1 None exampleStorage) = Ok False"
    by (simp add: put_first_revision)
  from a b c d show ?thesis by blast
qed

section \<open>The comparison head of an unmerged branch\<close>










lemma getHeadForTLFReadLocked_no_journal:
  "lookupBranchJournal s bid = None \<Longrightarrow> getHeadForTLFReadLocked env bid s = (Ok None, s)"
  by (simp add: getHeadForTLFReadLocked_def)



section \<open>The errors of the write path\<close>

text \<open>
  Every error \<open>put\<close> returns is the shutdown error, a wrapped or request error, the
  error of the successor check, or the raw error of \<^verbatim>\<open>os.MkdirAll\<close> on the branch's
  journal directory.
\<close>

lemma putResolveExtra_errors:
  "putResolveExtra env rmds extra s = (Err e, s') \<Longrightarrow> wrappedOrRequestError e"
  by (auto simp add: putResolveExtra_def wrappedOrRequestError_def
      split: option.splits prod.splits result.splits)

lemma putCheckPermissions_errors:
  "putCheckPermissions env uid key rmds extra s = (Err e, s') \<Longrightarrow> wrappedOrRequestError e"
  by (auto simp add: putCheckPermissions_def wrappedOrRequestError_def
      split: option.splits prod.splits result.splits sum.splits if_splits)

lemma putComparisonHead_errors:
  "putComparisonHead env uid rmds s = (Err e, s') \<Longrightarrow> wrappedOrRequestError e"
  by (auto simp add: putComparisonHead_def wrappedOrRequestError_def Let_def
      split: option.splits prod.splits result.splits sum.splits if_splits)

lemma putCheckSuccessor_errors:
  "putCheckSuccessor env head rmds = Err e \<Longrightarrow>
   wrappedOrRequestError e \<or> (\<exists>msg. e = ErrInvalidSuccessor msg)"
  by (auto simp add: putCheckSuccessor_def wrappedOrRequestError_def
      split: option.splits sum.splits)

lemma getOrCreateBranchJournalLocked_errors:
  "getOrCreateBranchJournalLocked bid s = (Err e, s') \<Longrightarrow>
   \<exists>msg. e = ErrIO msg
       \<and> ioFault s (FsMkdirAll (Join (branchJournalsPath s) [bid])) = Some msg"
  by (auto simp add: getOrCreateBranchJournalLocked_def MkdirAll_def Let_def
      split: option.splits prod.splits result.splits)

lemma putMDLocked_ioFault: "putMDLocked env rmds s = (r, s') \<Longrightarrow> ioFault s' = ioFault s"
  by (simp add: putMDLocked_keeps)

lemma putPersist_errors:
  assumes "putPersist env rmds extra rb s = (Err e, s')"
  shows "wrappedOrRequestError e
     \<or> (\<exists>msg. e = ErrIO msg
          \<and> ioFault s (FsMkdirAll (Join (branchJournalsPath s) [BID (MD rmds)])) = Some msg)"
proof -
  obtain r1 s1 where a: "putMDLocked env rmds s = (r1, s1)" by (cases "putMDLocked env rmds s")
  obtain r2 s2 where b: "putExtraMetadataLocked env rmds extra s1 = (r2, s2)"
    by (cases "putExtraMetadataLocked env rmds extra s1")
  from putMDLocked_keeps [OF a] putExtraMetadataLocked_keeps [OF b]
  have same: "ioFault s2 = ioFault s" "branchJournalsPath s2 = branchJournalsPath s"
    by (simp_all add: branchJournalsPath_def)
  from assms a b have "wrappedOrRequestError e
      \<or> getOrCreateBranchJournalLocked (BID (MD rmds)) s2 = (Err e, s')"
    by (auto simp add: putPersist_def wrappedOrRequestError_def
        split: prod.splits result.splits)
  with same show ?thesis by (auto dest: getOrCreateBranchJournalLocked_errors)
qed

lemma put_errors:
  assumes "put env uid key rmds extra s = (Err e, s')"
  shows "e = errMDServerTlfStorageShutdown \<or> wrappedOrRequestError e
     \<or> (\<exists>msg. e = ErrInvalidSuccessor msg)
     \<or> (\<exists>msg. e = ErrIO msg
          \<and> ioFault s (FsMkdirAll (Join (branchJournalsPath s) [BID (MD rmds)])) = Some msg)"
proof (cases "isShutdownReadLocked s")
  case True
  with assms show ?thesis by (simp add: put_def)
next
  case False
  obtain r1 s1 where a: "putResolveExtra env rmds extra s = (r1, s1)"
    by (cases "putResolveExtra env rmds extra s")
  show ?thesis
  proof (cases r1)
    case (Err e1)
    with assms False a show ?thesis by (auto simp add: put_def dest: putResolveExtra_errors)
  next
    case (Panic m)
    with assms False a show ?thesis by (simp add: put_def)
  next
    case (Ok extra')
    obtain r2 s2 where b: "putCheckPermissions env uid key rmds extra' s1 = (r2, s2)"
      by (cases "putCheckPermissions env uid key rmds extra' s1")
    show ?thesis
    proof (cases r2)
      case (Err e2)
      with assms False a Ok b show ?thesis
        by (auto simp add: put_def dest: putCheckPermissions_errors)
    next
      case (Panic m)
      with assms False a Ok b show ?thesis by (simp add: put_def)
    next
      case ok2: (Ok u)
      obtain r3 s3 where c: "putComparisonHead env uid rmds s2 = (r3, s3)"
        by (cases "putComparisonHead env uid rmds s2")
      show ?thesis
      proof (cases r3)
        case (Err e3)
        with assms False a Ok b ok2 c show ?thesis
          by (auto simp add: put_def dest: putComparisonHead_errors)
      next
        case (Panic m)
        with assms False a Ok b ok2 c show ?thesis by (simp add: put_def)
      next
        case ok3: (Ok hr)
        obtain head rb where hr: "hr = (head, rb)" by (cases hr)
        from a Ok b ok2 c ok3 hr have ro: "readOnly s s3"
          by (auto intro: put_Ok_readOnly_prefix)
        then have same: "ioFault s3 = ioFault s" "branchJournalsPath s3 = branchJournalsPath s"
          by (simp_all add: readOnly_fields branchJournalsPath_def)
        show ?thesis
        proof (cases "putCheckSuccessor env head rmds")
          case (Err e4)
          with assms False a Ok b ok2 c ok3 hr show ?thesis
            by (auto simp add: put_def dest: putCheckSuccessor_errors)
        next
          case (Panic m)
          with assms False a Ok b ok2 c ok3 hr show ?thesis by (simp add: put_def)
        next
          case ok4: (Ok v)
          with assms False a Ok b ok2 c ok3 hr
          have "putPersist env rmds extra' rb s3 = (Err e, s')" by (simp add: put_def)
          from putPersist_errors [OF this] same show ?thesis by auto
        qed
      qed
    qed
  qed
qed

section \<open>What the storage holds, and what the code reads\<close>








section \<open>The authorization gate\<close>











section \<open>The comparison head of an unmerged branch, from the state\<close>





lemma exampleStorage2_simps:
  "tlfID exampleStorage2 = ''tlf''" "mdVer exampleStorage2 = 1" "clockNow exampleStorage2 = 7"
  "dir exampleStorage2 = [''root'']"
  "branchJournals exampleStorage2 =
     Some [NullBranchID \<mapsto> \<lparr>jdir = [''root'', ''md_branch_journals'', NullBranchID]\<rparr>,
           ''b1'' \<mapsto> \<lparr>jdir = [''root'', ''md_branch_journals'', ''b1'']\<rparr>]"
  "files exampleStorage2 =
     [[''root'', ''mds'', ''01ab'', ''m1''] \<mapsto>
        RMDSFile \<lparr>EncodedRMDS = ''m1'', Timestamp = 7, Version = 1\<rparr>,
      [''root'', ''mds'', ''01ab'', ''u2''] \<mapsto>
        RMDSFile \<lparr>EncodedRMDS = ''u2'', Timestamp = 7, Version = 1\<rparr>]"
  "journals exampleStorage2 =
     [[''root'', ''md_branch_journals'', NullBranchID] \<mapsto>
        \<lparr>earliest = 1, entries = [\<lparr>ID = ''01abm1''\<rparr>]\<rparr>,
      [''root'', ''md_branch_journals'', ''b1''] \<mapsto>
        \<lparr>earliest = 0, entries = []\<rparr>]"
  "ioFault exampleStorage2 = (\<lambda>a. None)" "accesses exampleStorage2 = []"
  by (simp_all add: exampleStorage2_def exampleStorage_simps)

lemma put_with_failing_append:
  "fst (put exampleCollaborators ''alice'' ''key'' (exampleRMDS ''u2'' 2 ''b1'' Unmerged) None
          (exampleStorage1\<lparr>ioFault := appendFault\<rparr>)) =
     Err (MDServerError (ErrIO ''disk full''))
   \<and> (snd (put exampleCollaborators ''alice'' ''key'' (exampleRMDS ''u2'' 2 ''b1'' Unmerged) None
          (exampleStorage1\<lparr>ioFault := appendFault\<rparr>)))\<lparr>ioFault := (\<lambda>a. None), accesses := []\<rparr> =
     exampleStorage2"
  by (simp add: op_defs fs_defs j_defs path_defs exampleCollaborators_simps exampleRMDS_simps
      exampleStorage1_def exampleStorage2_def exampleStorage_def appendFault_def Let_def
      NullBranchID_def fun_upd_twist)





end
